theory Spec2Isabelle
  imports Complex_Main "HOL-Library.Word"
begin

section \<open>The world the fax simulator runs in\<close>

text \<open>
  The pipeline threads one image path through a chain of effect modules. Every module
  reads the file system, calls the raster engine (ImageMagick, or sharp for the white
  stripes), draws from \<open>Math.random()\<close> and deletes what it consumed. The model makes
  each of these explicit.

  A JavaScript number is kept as the real it stands for (and as \<open>int\<close> or \<open>nat\<close> where
  the source floors it or reads it as a pixel count). Where the program floors or
  rounds the result of an operation, and so turns it into a count, an index or a pixel
  position, the model rounds the result to the nearest double first, as the machine
  does (section \<open>Numbers\<close>). The other numbers are kept exact: those that only reach
  the engine as text (angles, blur radii, smear lengths), and the Gaussian positions of
  the black stripes, whose logarithm and cosine the language leaves to the
  implementation. NaN, the infinities and the sign of zero are outside the model, and
  so are the limits of memory: a loop counter is exact and a script may have any
  number of lines.
\<close>

type_synonym path = string

text \<open>The lines of a draw script (MVG), as the modules push them.\<close>

datatype mvg =
    PushContext
  | Viewbox int int
  | Fill string
  | StrokeNone
  | Rectangle int int int int
  | Point int int
  | PopContext

text \<open>
  The arguments of an engine call. A template string of the source is kept as the
  numbers it formats: \<open>Dim w h\<close> is \<open>`${w}x${h}`\<close>, \<open>Geom w h x y\<close> is
  \<open>`${w}x${h}+${x}+${y}`\<close>, \<open>Off x y\<close> is \<open>`+${x}+${y}`\<close>, \<open>At p\<close> is \<open>`@${p}`\<close>,
  \<open>Sigma r\<close> is \<open>`0x${r}`\<close>, \<open>Smear l a\<close> is \<open>`0x${l}+${a}`\<close>, \<open>Pct v\<close> is \<open>`${v}%`\<close>
  and \<open>Ctrl\<close> is the list of control-point pairs of a Shepards distortion.
\<close>

datatype arg =
    Lit string
  | File path
  | At path
  | Num real
  | Dim int int
  | Geom int int int int
  | Off int int
  | Sigma real
  | Smear real real
  | Pct real
  | Ctrl "(real \<times> real \<times> real \<times> real) list"

text \<open>
  A file is an image, of which the model keeps the pixel dimensions, or a draw script.
  A source document stands for the raster it renders to.
\<close>

datatype fsobj = Image nat nat | Script "mvg list"

text \<open>Everything the program does to the outside is appended to a trace.\<close>

datatype event =
    Exec "arg list"
  | Unlink path
  | WriteFile path fsobj
  | CopyFile path path
  | Metadata path
  | Composite path "8 word list"
  | Console string
  | DebugLine string

record world =
  files :: "path \<Rightarrow> fsobj option"
  trace :: "event list"
  draws :: nat

datatype error = ENOENT path | ExecFailed "arg list" | OutOfRange | Hang

text \<open>
  What the program reads from its environment: the stream of \<open>Math.random()\<close> values
  (\<open>draws\<close> counts how many were taken), the text \<open>`${Date.now()}_${r.toString().slice(2)}`\<close>
  that names a temporary script for a draw \<open>r\<close>, the system's temporary directory, the
  bounding box the engine reports for the visible content of an image (\<open>%@\<close>), and the
  blur of sharp on a one-channel raw buffer.
\<close>

record env =
  rnd :: "nat \<Rightarrow> real"
  stamp :: "real \<Rightarrow> string"
  os_tmpdir :: string
  trim_box :: "path \<Rightarrow> world \<Rightarrow> int \<times> int \<times> int \<times> int"
  sharp_blur :: "nat \<Rightarrow> nat \<Rightarrow> real \<Rightarrow> 8 word list \<Rightarrow> 8 word list"

definition and_then :: "error + 'a \<Rightarrow> ('a \<Rightarrow> error + 'b) \<Rightarrow> error + 'b" where
  "and_then m f = (case m of Inl e \<Rightarrow> Inl e | Inr x \<Rightarrow> f x)"

definition random :: "env \<Rightarrow> world \<Rightarrow> real \<times> world" where
  "random e s = (rnd e (draws s), s\<lparr>draws := Suc (draws s)\<rparr>)"

definition path_join :: "string \<Rightarrow> string \<Rightarrow> path" where
  "path_join dir f = dir @ ''/'' @ f"

definition writeFileSync :: "path \<Rightarrow> fsobj \<Rightarrow> world \<Rightarrow> world" where
  "writeFileSync p f s = s\<lparr>files := (files s)(p \<mapsto> f), trace := trace s @ [WriteFile p f]\<rparr>"

text \<open>\<open>fs.unlinkSync\<close> and \<open>fs.copyFileSync\<close> throw when the file is missing.\<close>

definition unlinkSync :: "path \<Rightarrow> world \<Rightarrow> error + world" where
  "unlinkSync p s =
     (if files s p = None then Inl (ENOENT p)
      else Inr (s\<lparr>files := (files s)(p := None), trace := trace s @ [Unlink p]\<rparr>))"

definition copyFileSync :: "path \<Rightarrow> path \<Rightarrow> world \<Rightarrow> error + world" where
  "copyFileSync src dst s =
     (case files s src of
        None \<Rightarrow> Inl (ENOENT src)
      | Some f \<Rightarrow> Inr (s\<lparr>files := (files s)(dst \<mapsto> f), trace := trace s @ [CopyFile src dst]\<rparr>))"

subsection \<open>Numbers\<close>

text \<open>
  The doubles are the reals \<open>m * 2 ^ k\<close> with \<open>\<bar>m\<bar> < 2 ^ 53\<close> and \<open>k\<close> at least \<open>-1074\<close>.
  \<open>binade x\<close> is the exponent \<open>k\<close> with \<open>2 ^ k \<le> x < 2 ^ (k + 1)\<close> of a positive \<open>x\<close>, and
  \<open>ulp x\<close> the distance between the doubles around \<open>x\<close>; below \<open>2 ^ -1022\<close> the doubles
  are evenly spaced. \<open>double x\<close> is the double nearest to \<open>x\<close>; of two that are equally
  near it is the one with the even mantissa.
\<close>

definition pow2 :: "int \<Rightarrow> real" where
  "pow2 k = (if 0 \<le> k then 2 ^ nat k else 1 / 2 ^ nat (- k))"

fun ilog2 :: "nat \<Rightarrow> nat" where
  "ilog2 n = (if n < 2 then 0 else Suc (ilog2 (n div 2)))"

declare ilog2.simps [simp del]

definition binade :: "real \<Rightarrow> int" where
  "binade x = (if 1 \<le> x then int (ilog2 (nat \<lfloor>x\<rfloor>))
               else - int (Suc (ilog2 (nat \<lceil>1 / x\<rceil> - 1))))"

definition ulp :: "real \<Rightarrow> real" where
  "ulp x = pow2 (max (binade \<bar>x\<bar>) (- 1022) - 52)"

definition round_even :: "real \<Rightarrow> int" where
  "round_even q = (let n = \<lfloor>q\<rfloor>; d = q - of_int n
                   in if d < 1 / 2 then n else if 1 / 2 < d then n + 1
                      else if even n then n else n + 1)"

definition double :: "real \<Rightarrow> real" where
  "double x = (if x = 0 then 0 else of_int (round_even (x / ulp x)) * ulp x)"

text \<open>The arithmetic of the machine: the exact result, rounded.\<close>

definition fadd :: "real \<Rightarrow> real \<Rightarrow> real" where
  "fadd a b = double (a + b)"

definition fsub :: "real \<Rightarrow> real \<Rightarrow> real" where
  "fsub a b = double (a - b)"

definition fmul :: "real \<Rightarrow> real \<Rightarrow> real" where
  "fmul a b = double (a * b)"

definition fdiv :: "real \<Rightarrow> real \<Rightarrow> real" where
  "fdiv a b = double (a / b)"

subsection \<open>The raster engine\<close>

text \<open>
  The engine is external. The model keeps the size of the image an invocation writes:
  the geometry of the last \<open>-extent\<close> (or \<open>-size\<close>, for a fresh canvas) among its
  arguments, and otherwise the size of the first image it reads. An invocation fails
  when a file it reads is missing or when it has no image to write.
\<close>

fun arg_paths :: "arg list \<Rightarrow> path list" where
  "arg_paths [] = []"
| "arg_paths (File p # as) = p # arg_paths as"
| "arg_paths (At p # as) = p # arg_paths as"
| "arg_paths (a # as) = arg_paths as"

definition sets_canvas :: "arg option \<Rightarrow> bool" where
  "sets_canvas prev = (prev = Some (Lit ''-extent'') \<or> prev = Some (Lit ''-size''))"

fun im_dims :: "(path \<Rightarrow> fsobj option) \<Rightarrow> arg option \<Rightarrow> arg list \<Rightarrow> (nat \<times> nat) option \<Rightarrow> (nat \<times> nat) option" where
  "im_dims fs prev [] d = d"
| "im_dims fs prev (a # as) d =
     im_dims fs (Some a) as
       (case a of
          Dim w h \<Rightarrow> if sets_canvas prev then Some (nat w, nat h) else d
        | File p \<Rightarrow> (case d of
                       None \<Rightarrow> (case fs p of Some (Image w h) \<Rightarrow> Some (w, h) | _ \<Rightarrow> None)
                     | Some x \<Rightarrow> Some x)
        | _ \<Rightarrow> d)"

definition magick :: "arg list \<Rightarrow> world \<Rightarrow> error + world" where
  "magick args s =
     (if args = [] \<or> \<not> list_all (\<lambda>p. files s p \<noteq> None) (arg_paths (butlast args))
      then Inl (ExecFailed args)
      else case (last args, im_dims (files s) None (butlast args) None) of
             (File out, Some (w, h)) \<Rightarrow>
               Inr (s\<lparr>files := (files s)(out \<mapsto> Image w h), trace := trace s @ [Exec args]\<rparr>)
           | _ \<Rightarrow> Inl (ExecFailed args))"

text \<open>A query for the width and height of an image (\<open>-format '%w %h'\<close>).\<close>

definition magick_size :: "arg list \<Rightarrow> path \<Rightarrow> world \<Rightarrow> error + ((nat \<times> nat) \<times> world)" where
  "magick_size args p s =
     (case files s p of
        Some (Image w h) \<Rightarrow> Inr ((w, h), s\<lparr>trace := trace s @ [Exec args]\<rparr>)
      | _ \<Rightarrow> Inl (ExecFailed args))"

definition identify :: "path \<Rightarrow> world \<Rightarrow> error + ((nat \<times> nat) \<times> world)" where
  "identify cur s = magick_size [Lit ''identify'', Lit ''-format'', Lit ''%w %h'', File cur] cur s"

subsection \<open>Batch gating\<close>

text \<open>
  \<open>if (batchPerc < 1 && Math.random() > batchPerc) return cur;\<close>
  The draw is taken only when the probability is below one.
\<close>

definition batch_skip :: "env \<Rightarrow> real \<Rightarrow> world \<Rightarrow> bool \<times> world" where
  "batch_skip e batchPerc s =
     (if batchPerc < 1 then (let (r, s1) = random e s in (r > batchPerc, s1)) else (False, s))"

text \<open>
  \<open>if (!apply || Math.random() > batchPerc) return cur;\<close>
  The form of the rotate and warp modules: the draw is taken whenever the effect is enabled.
\<close>

definition enabled_skip :: "env \<Rightarrow> bool \<Rightarrow> real \<Rightarrow> world \<Rightarrow> bool \<times> world" where
  "enabled_skip e enabled batchPerc s =
     (if \<not> enabled then (True, s) else (let (r, s1) = random e s in (r > batchPerc, s1)))"

section \<open>Dropout (faxSim_effect_dropout.js)\<close>

definition blockSize_of :: "real \<Rightarrow> int" where
  "blockSize_of dropoutSize = (if dropoutSize < 1 then 1 else \<lfloor>dropoutSize\<rfloor>)"

text \<open>The loop of \<open>createMVG\<close>: one rectangle per round, two draws each.\<close>

primrec dropout_rects :: "env \<Rightarrow> nat \<Rightarrow> nat \<Rightarrow> nat \<Rightarrow> int \<Rightarrow> world \<Rightarrow> mvg list \<times> world" where
  "dropout_rects e 0 w h blockSize s = ([], s)"
| "dropout_rects e (Suc n) w h blockSize s =
     (let (r1, s1) = random e s;
          x = \<lfloor>fmul r1 (fsub (real w) (real_of_int blockSize))\<rfloor>;
          (r2, s2) = random e s1;
          y = \<lfloor>fmul r2 (fsub (real h) (real_of_int blockSize))\<rfloor>;
          (rest, s3) = dropout_rects e n w h blockSize s2
      in (Rectangle x y (x + blockSize - 1) (y + blockSize - 1) # rest, s3))"

definition createMVG :: "env \<Rightarrow> nat \<Rightarrow> nat \<Rightarrow> real \<Rightarrow> real \<Rightarrow> world \<Rightarrow> (path \<times> world) option" where
  "createMVG e w h dropoutAmount dropoutSize s =
     (let blockSize = blockSize_of dropoutSize;
          totalArea = fmul (real w) (real h);
          blockArea = fmul (real_of_int blockSize) (real_of_int blockSize);
          count = \<lfloor>fdiv (fmul totalArea dropoutAmount) blockArea\<rfloor>
      in if count < 1 then None
         else
           (let (rects, s1) = dropout_rects e (nat count) w h blockSize s;
                lines = [PushContext, Viewbox (int w) (int h), Fill ''white'', StrokeNone]
                        @ rects @ [PopContext];
                (r, s2) = random e s1;
                mvgPath = path_join (os_tmpdir e) (''mvg_dropout_'' @ stamp e r @ ''.mvg'')
            in Some (mvgPath, writeFileSync mvgPath (Script lines) s2)))"

definition applyDropoutEffect ::
  "env \<Rightarrow> path \<Rightarrow> string \<Rightarrow> string \<Rightarrow> real \<Rightarrow> real \<Rightarrow> real \<Rightarrow> world \<Rightarrow> error + (path \<times> world)" where
  "applyDropoutEffect e cur name tmpDir dropoutAmount dropoutSize dropoutBatchPerc s =
     (let (skip, s0) = batch_skip e dropoutBatchPerc s in
      if skip then Inr (cur, s0)
      else
        and_then (identify cur s0) (\<lambda>((w, h), s1).
          case createMVG e w h dropoutAmount dropoutSize s1 of
            None \<Rightarrow> Inr (cur, s1)
          | Some (mvgFile, s2) \<Rightarrow>
              (let outPath = path_join tmpDir (name @ ''_rb.png'') in
               and_then (magick [File cur, Lit ''-draw'', At mvgFile, File outPath] s2) (\<lambda>s3.
               and_then (unlinkSync cur s3) (\<lambda>s4.
               and_then (unlinkSync mvgFile s4) (\<lambda>s5.
               Inr (outPath, s5)))))))"

section \<open>White noise (faxSim_effect_noiseW.js)\<close>

primrec speckle_points :: "env \<Rightarrow> nat \<Rightarrow> nat \<Rightarrow> nat \<Rightarrow> world \<Rightarrow> mvg list \<times> world" where
  "speckle_points e 0 w h s = ([], s)"
| "speckle_points e (Suc n) w h s =
     (let (r1, s1) = random e s;
          x = \<lfloor>fmul r1 (real w)\<rfloor>;
          (r2, s2) = random e s1;
          y = \<lfloor>fmul r2 (real h)\<rfloor>;
          (rest, s3) = speckle_points e n w h s2
      in (Point x y # rest, s3))"

definition createSpeckleMVG :: "env \<Rightarrow> nat \<Rightarrow> nat \<Rightarrow> real \<Rightarrow> string \<Rightarrow> world \<Rightarrow> (path \<times> world) option" where
  "createSpeckleMVG e w h density color s =
     (let total = fmul (real w) (real h);
          count = \<lfloor>fmul total density\<rfloor>
      in if count < 1 then None
         else
           (let (points, s1) = speckle_points e (nat count) w h s;
                lines = [PushContext, Viewbox (int w) (int h), Fill color, StrokeNone]
                        @ points @ [PopContext];
                (r, s2) = random e s1;
                mvg = path_join (os_tmpdir e) (''noiseW_'' @ stamp e r @ ''.mvg'')
            in Some (mvg, writeFileSync mvg (Script lines) s2)))"

definition applyNoiseWEffect ::
  "env \<Rightarrow> path \<Rightarrow> string \<Rightarrow> string \<Rightarrow> real \<Rightarrow> real \<Rightarrow> world \<Rightarrow> error + (path \<times> world)" where
  "applyNoiseWEffect e cur name tmpDir batchPerc density s =
     (let (skip, s0) = batch_skip e batchPerc s in
      if skip then Inr (cur, s0)
      else
        and_then (identify cur s0) (\<lambda>((w, h), s1).
          case createSpeckleMVG e w h density ''white'' s1 of
            None \<Rightarrow> Inr (cur, s1)
          | Some (mvg, s2) \<Rightarrow>
              (let out = path_join tmpDir (name @ ''_noiseW.png'') in
               and_then (magick [File cur, Lit ''-draw'', At mvg, File out] s2) (\<lambda>s3.
               and_then (unlinkSync cur s3) (\<lambda>s4.
               and_then (unlinkSync mvg s4) (\<lambda>s5.
               Inr (out, s5)))))))"

section \<open>Rotate (faxSim_effect_rotate.js)\<close>

definition applyRotateEffect ::
  "env \<Rightarrow> path \<Rightarrow> string \<Rightarrow> string \<Rightarrow> bool \<Rightarrow> real \<Rightarrow> real \<Rightarrow> real \<Rightarrow> world \<Rightarrow> error + (path \<times> world)" where
  "applyRotateEffect e cur name tmpDir applyRotate rotateBatchPerc rotateMin rotateMax s =
     (let (skip, s0) = enabled_skip e applyRotate rotateBatchPerc s in
      if skip then Inr (cur, s0)
      else
        and_then (identify cur s0) (\<lambda>((w, h), s1).
          let (r, s2) = random e s1;
              angle = rotateMin + r * (rotateMax - rotateMin);
              outPath = path_join tmpDir (name @ ''_rotated.png'')
          in and_then
               (magick [File cur,
                        Lit ''-background'', Lit ''white'',
                        Lit ''-virtual-pixel'', Lit ''background'',
                        Lit ''-distort'', Lit ''SRT'', Num angle,
                        Lit ''-gravity'', Lit ''center'',
                        Lit ''-extent'', Dim (int w) (int h),
                        File outPath] s2) (\<lambda>s3.
             and_then (unlinkSync cur s3) (\<lambda>s4.
             Inr (outPath, s4)))))"

section \<open>Warp (faxSim_effect_warp.js)\<close>

text \<open>\<open>Math.round\<close> rounds half up.\<close>

definition js_round :: "real \<Rightarrow> int" where
  "js_round x = \<lfloor>x + 1 / 2\<rfloor>"

text \<open>
  The answer of the engine to \<open>-format '%@'\<close>: the bounding box of the visible content,
  read from the environment.
\<close>

definition magick_box :: "env \<Rightarrow> arg list \<Rightarrow> path \<Rightarrow> world \<Rightarrow> error + ((int \<times> int \<times> int \<times> int) \<times> world)" where
  "magick_box e args p s =
     (case files s p of
        Some (Image w h) \<Rightarrow> Inr (trim_box e p s, s\<lparr>trace := trace s @ [Exec args]\<rparr>)
      | _ \<Rightarrow> Inl (ExecFailed args))"

text \<open>
  The numbers of the warp, step by step as the source computes them.
  \<open>Number(x) || d\<close> is \<open>d\<close> when \<open>x\<close> is zero.
\<close>

text \<open>3. Clamp offset: \<open>rawOff\<close>, \<open>limit\<close>, \<open>off\<close>.\<close>

definition warp_off :: "nat \<Rightarrow> nat \<Rightarrow> real \<Rightarrow> real" where
  "warp_off w h warpOffsetPx =
     (let rawOff = (if warpOffsetPx = 0 then 0 else warpOffsetPx);
          limit = real (min w h) / 2 - 1
      in max (- limit) (min limit rawOff))"

text \<open>4. Pad by the diagonal: \<open>diag = Math.ceil(Math.hypot(w, h))\<close>, \<open>pad = diag\<close>.\<close>

definition warp_pad :: "nat \<Rightarrow> nat \<Rightarrow> int" where
  "warp_pad w h = \<lceil>sqrt (real (w * w + h * h))\<rceil>"

text \<open>5. Control points on the padded canvas: top left, top right, bottom left, bottom right.\<close>

definition warp_ctrl :: "nat \<Rightarrow> nat \<Rightarrow> int \<Rightarrow> real \<Rightarrow> (real \<times> real \<times> real \<times> real) list" where
  "warp_ctrl w h pad off =
     [(real_of_int pad, real_of_int pad,
       real_of_int pad + off, real_of_int pad + off),
      (real_of_int (pad + int w), real_of_int pad,
       real_of_int (pad + int w) - off, real_of_int pad + off),
      (real_of_int pad, real_of_int (pad + int h),
       real_of_int pad + off, real_of_int (pad + int h) - off),
      (real_of_int (pad + int w), real_of_int (pad + int h),
       real_of_int (pad + int w) - off, real_of_int (pad + int h) - off)]"

text \<open>9., 10. Scale to fit inside \<open>w\<close> by \<open>h\<close>, times the final scale: \<open>TW2\<close> and \<open>TH2\<close>.\<close>

definition warp_fit :: "nat \<Rightarrow> nat \<Rightarrow> int \<Rightarrow> int \<Rightarrow> real \<Rightarrow> int \<times> int" where
  "warp_fit w h TW TH warpFinalScale =
     (let fitScale = min (fdiv (real w) (real_of_int TW)) (fdiv (real h) (real_of_int TH));
          finalScale = fmul fitScale (if warpFinalScale = 0 then 1 else warpFinalScale)
      in (js_round (fmul (real_of_int TW) finalScale), js_round (fmul (real_of_int TH) finalScale)))"

text \<open>
  With an empty bounding box the source divides by zero and hands the engine the
  geometry \<open>NaNxNaN\<close>; the model takes the engine to reject it.
\<close>

definition applyWarpEffect ::
  "env \<Rightarrow> path \<Rightarrow> string \<Rightarrow> string \<Rightarrow> bool \<Rightarrow> real \<Rightarrow> real \<Rightarrow> real \<Rightarrow> world \<Rightarrow> error + (path \<times> world)" where
  "applyWarpEffect e cur name tmpDir applyWarp warpBatchPerc warpOffsetPx warpFinalScale s =
     (let (skip, s0) = enabled_skip e applyWarp warpBatchPerc s in
      if skip then Inr (cur, s0)
      else
        and_then (magick_size [File cur, Lit ''-format'', Lit ''%w %h'', Lit ''info:''] cur s0)
          (\<lambda>((w, h), s1).
          let off = warp_off w h warpOffsetPx;
              pad = warp_pad w h;
              pw = int w + 2 * pad;
              ph = int h + 2 * pad;
              ctrl = warp_ctrl w h pad off;
              padPath = path_join tmpDir (name @ ''_warp_pad.png'');
              outPath = path_join tmpDir (name @ ''_warp.png'')
          in and_then
               (magick [File cur,
                        Lit ''-background'', Lit ''transparent'',
                        Lit ''-extent'', Dim pw ph,
                        Lit ''-virtual-pixel'', Lit ''transparent'',
                        Lit ''-distort'', Lit ''Shepards'', Ctrl ctrl,
                        File padPath] s1) (\<lambda>s2.
             and_then
               (magick_box e [File padPath, Lit ''-format'', Lit ''%@'', Lit ''info:''] padPath s2)
               (\<lambda>((TW, TH, X, Y), s3).
               if TW = 0 \<or> TH = 0 then Inl (ExecFailed [Lit ''-resize''])
               else
                 let (TW2, TH2) = warp_fit w h TW TH warpFinalScale
                 in and_then
                      (magick [File padPath,
                               Lit ''-crop'', Geom TW TH X Y,
                               Lit ''+repage'',
                               Lit ''-resize'', Dim TW2 TH2,
                               Lit ''-background'', Lit ''white'',
                               Lit ''-gravity'', Lit ''center'',
                               Lit ''-extent'', Dim (int w) (int h),
                               File outPath] s3) (\<lambda>s4.
                    and_then (unlinkSync cur s4) (\<lambda>s5.
                    and_then (unlinkSync padPath s5) (\<lambda>s6.
                    Inr (outPath, s6))))))))"

section \<open>Standalone raster (faxSim_effect_raster.js)\<close>

definition applyRasterEffect ::
  "env \<Rightarrow> path \<Rightarrow> string \<Rightarrow> string \<Rightarrow> real \<Rightarrow> string \<Rightarrow> world \<Rightarrow> error + (path \<times> world)" where
  "applyRasterEffect e cur name tmpDir batchPerc rasterMap s =
     (let (skip, s0) = batch_skip e batchPerc s in
      if skip then Inr (cur, s0)
      else
        (let out = path_join tmpDir (name @ ''_raster.png'') in
         and_then
           (magick [File cur, Lit ''+dither'', Lit ''-ordered-dither'', Lit rasterMap, File out] s0)
           (\<lambda>s1.
         and_then (unlinkSync cur s1) (\<lambda>s2.
         Inr (out, s2)))))"

section \<open>Tile shift (faxSim_effect_tileshift.js)\<close>

definition randInt :: "env \<Rightarrow> int \<Rightarrow> int \<Rightarrow> world \<Rightarrow> int \<times> world" where
  "randInt e lo hi s = (let (r, s1) = random e s in (\<lfloor>fmul r (real_of_int (hi - lo + 1))\<rfloor> + lo, s1))"

text \<open>
  The body of the tile loop up to the clamp: the tile size, the source corner and the
  paste corner of one tile.
\<close>

definition tile_place ::
  "env \<Rightarrow> nat \<Rightarrow> nat \<Rightarrow> int \<Rightarrow> int \<Rightarrow> int \<Rightarrow> int \<Rightarrow> int \<Rightarrow> world \<Rightarrow> (int \<times> int \<times> int \<times> int \<times> int) \<times> world" where
  "tile_place e w h tilesSize tilesVariation tilesOffsetX tilesOffsetY offsetVariation s =
     (let (extra, s1) = randInt e 0 tilesVariation s;
          ts = tilesSize + extra;
          (x, s2) = randInt e 0 (int w - ts) s1;
          (y, s3) = randInt e 0 (int h - ts) s2;
          (jx, s4) = randInt e 0 offsetVariation s3;
          dx = tilesOffsetX + jx;
          (jy, s5) = randInt e 0 offsetVariation s4;
          dy = tilesOffsetY + jy;
          px = x + dx;
          py = y + dy;
          px = (if px + ts > int w then int w - ts else px);
          py = (if py + ts > int h then int h - ts else py)
      in ((ts, x, y, px, py), s5))"

primrec tile_args ::
  "env \<Rightarrow> nat \<Rightarrow> nat \<Rightarrow> nat \<Rightarrow> int \<Rightarrow> int \<Rightarrow> int \<Rightarrow> int \<Rightarrow> int \<Rightarrow> world \<Rightarrow> arg list \<times> world" where
  "tile_args e 0 w h tilesSize tilesVariation tilesOffsetX tilesOffsetY offsetVariation s = ([], s)"
| "tile_args e (Suc n) w h tilesSize tilesVariation tilesOffsetX tilesOffsetY offsetVariation s =
     (let ((ts, x, y, px, py), s1) =
            tile_place e w h tilesSize tilesVariation tilesOffsetX tilesOffsetY offsetVariation s;
          (rest, s2) =
            tile_args e n w h tilesSize tilesVariation tilesOffsetX tilesOffsetY offsetVariation s1
      in ([Lit ''('',
             Lit ''+clone'',
             Lit ''-crop'', Geom ts ts x y,
             Lit ''+repage'',
           Lit '')'',
           Lit ''-geometry'', Off px py,
           Lit ''-compose'', Lit ''Over'',
           Lit ''-composite''] @ rest, s2))"

definition applyTileshiftEffect ::
  "env \<Rightarrow> path \<Rightarrow> string \<Rightarrow> string \<Rightarrow> real \<Rightarrow> int \<Rightarrow> int \<Rightarrow> int \<Rightarrow> int \<Rightarrow> int \<Rightarrow> int \<Rightarrow> world \<Rightarrow> error + (path \<times> world)" where
  "applyTileshiftEffect e cur name tmpDir batchPerc amountTiles tilesSize tilesVariation
       tilesOffsetX tilesOffsetY offsetVariation s =
     (let (skip, s0) = batch_skip e batchPerc s in
      if skip then Inr (cur, s0)
      else
        and_then (identify cur s0) (\<lambda>((w, h), s1).
          let (tiles, s2) =
                tile_args e (nat amountTiles) w h tilesSize tilesVariation
                  tilesOffsetX tilesOffsetY offsetVariation s1;
              targs = [File cur, Lit ''-alpha'', Lit ''set''] @ tiles;
              outPath = path_join tmpDir (name @ ''_tiles.png'')
          in and_then (magick (targs @ [File outPath]) s2) (\<lambda>s3.
             and_then (unlinkSync cur s3) (\<lambda>s4.
             Inr (outPath, s4)))))"

section \<open>White stripes (faxSim_effect_stripesW.js)\<close>

text \<open>
  \<open>buf.fill(value, start, end)\<close> of Node: both bounds are validated (\<open>start\<close> at least
  zero, \<open>end\<close> between zero and the length of the buffer) and an empty range writes
  nothing.
\<close>

definition buf_fill :: "8 word \<Rightarrow> int \<Rightarrow> int \<Rightarrow> 8 word list \<Rightarrow> error + 8 word list" where
  "buf_fill v start end buf =
     (if start < 0 \<or> end < 0 \<or> end > int (length buf) then Inl OutOfRange
      else if start \<ge> end then Inr buf
      else Inr (take (nat start) buf @ replicate (nat (end - start)) v @ drop (nat end) buf))"

text \<open>\<open>for (let y = pos; y < pos + thickness; y++) stripeMask.fill(255, y * width, y * width + width)\<close>\<close>

primrec fill_rows :: "nat \<Rightarrow> int \<Rightarrow> int \<Rightarrow> 8 word list \<Rightarrow> error + 8 word list" where
  "fill_rows 0 y width buf = Inr buf"
| "fill_rows (Suc n) y width buf =
     and_then (buf_fill 255 (y * width) (y * width + width) buf) (\<lambda>buf1.
       fill_rows n (y + 1) width buf1)"

text \<open>\<open>for (let y = 0; y < height; y++) stripeMask.fill(255, y * width + pos, y * width + pos + thickness)\<close>\<close>

primrec fill_cols :: "nat \<Rightarrow> int \<Rightarrow> int \<Rightarrow> int \<Rightarrow> int \<Rightarrow> 8 word list \<Rightarrow> error + 8 word list" where
  "fill_cols 0 y width pos thickness buf = Inr buf"
| "fill_cols (Suc n) y width pos thickness buf =
     and_then (buf_fill 255 (y * width + pos) (y * width + pos + thickness) buf) (\<lambda>buf1.
       fill_cols n (y + 1) width pos thickness buf1)"

text \<open>
  The stripe loop, by the number of stripes still to draw: \<open>i < amount - 1\<close> holds
  exactly when more than one is left.
\<close>

primrec stripe_loop ::
  "env \<Rightarrow> nat \<Rightarrow> nat \<Rightarrow> nat \<Rightarrow> int \<Rightarrow> int \<Rightarrow> int \<Rightarrow> int \<Rightarrow> string \<Rightarrow> int \<Rightarrow> 8 word list \<Rightarrow> world
     \<Rightarrow> error + (8 word list \<times> world)" where
  "stripe_loop e 0 width height thickMin thickMax spacingMin spacingMax dir offset stripeMask s =
     Inr (stripeMask, s)"
| "stripe_loop e (Suc n) width height thickMin thickMax spacingMin spacingMax dir offset stripeMask s =
     (let (r1, s1) = random e s;
          thickness = thickMin + \<lfloor>fmul r1 (real_of_int (thickMax - thickMin + 1))\<rfloor>;
          (spacing, s2) =
            (if 0 < n
             then (let (r2, t) = random e s1
                   in (spacingMin + \<lfloor>fmul r2 (real_of_int (spacingMax - spacingMin + 1))\<rfloor>, t))
             else (0, s1));
          offset = offset + spacing;
          (r3, s3) = random e s2;
          jitter = \<lfloor>fmul (fsub (fmul r3 2) 1) (real_of_int spacing)\<rfloor>;
          maxPos = (if dir = ''horizontal'' then int height else int width) - thickness;
          pos = max 0 (min maxPos (offset + jitter))
      in and_then
           (if dir = ''horizontal''
            then fill_rows (nat thickness) pos (int width) stripeMask
            else fill_cols height 0 (int width) pos thickness stripeMask)
           (\<lambda>stripeMask1.
              stripe_loop e n width height thickMin thickMax spacingMin spacingMax dir
                (offset + thickness) stripeMask1 s3))"

text \<open>\<open>noiseRaw[i] = (Math.random() < distort ? 0 : 255)\<close>, one draw for each pixel.\<close>

primrec noise_raw :: "env \<Rightarrow> nat \<Rightarrow> real \<Rightarrow> world \<Rightarrow> 8 word list \<times> world" where
  "noise_raw e 0 distort s = ([], s)"
| "noise_raw e (Suc n) distort s =
     (let (r, s1) = random e s;
          (rest, s2) = noise_raw e n distort s1
      in ((if r < distort then 0 else 255) # rest, s2))"

text \<open>
  The threshold loop runs over the blurred buffer and writes into a buffer of
  \<open>width * height\<close> zeros; a write past its end is dropped.
\<close>

definition noise_mask :: "nat \<Rightarrow> 8 word list \<Rightarrow> 8 word list" where
  "noise_mask n blurred =
     map (\<lambda>i. if i < length blurred \<and> blurred ! i > 128 then 255 else 0) [0..<n]"

definition final_mask :: "nat \<Rightarrow> 8 word list \<Rightarrow> 8 word list \<Rightarrow> 8 word list" where
  "final_mask n stripeMask noiseMask =
     map (\<lambda>i. if stripeMask ! i = 255 \<and> noiseMask ! i = 255 then 255 else 0) [0..<n]"

definition overlay_of :: "8 word list \<Rightarrow> 8 word list" where
  "overlay_of finalMask = concat (map (\<lambda>v. [255, 255, 255, v]) finalMask)"

text \<open>
  The three masks and the overlay of one call. The module never reads \<open>batchPerc\<close>
  (its header: the batch probability is checked by the caller).
\<close>

definition stripesW_masks ::
  "env \<Rightarrow> nat \<Rightarrow> nat \<Rightarrow> int \<Rightarrow> int \<Rightarrow> int \<Rightarrow> int \<Rightarrow> int \<Rightarrow> string \<Rightarrow> real \<Rightarrow> real \<Rightarrow> world
     \<Rightarrow> error + ((8 word list \<times> 8 word list \<times> 8 word list \<times> 8 word list) \<times> world)" where
  "stripesW_masks e width height amount thickMin thickMax spacingMin spacingMax dir noiseSize distort s =
     (let (r0, s1) = random e s;
          offset = \<lfloor>fmul r0 (real (if dir = ''horizontal'' then height else width))\<rfloor>
      in and_then
           (stripe_loop e (nat amount) width height thickMin thickMax spacingMin spacingMax dir
              offset (replicate (width * height) 0) s1)
           (\<lambda>(stripeMask, s2).
              let (noiseRaw, s3) = noise_raw e (width * height) distort s2;
                  blurred = sharp_blur e width height (if noiseSize > 1 then noiseSize / 2 else 1) noiseRaw;
                  noiseMask = noise_mask (width * height) blurred;
                  finalMask = final_mask (width * height) stripeMask noiseMask;
                  overlay = overlay_of finalMask
              in Inr ((stripeMask, noiseMask, finalMask, overlay), s3)))"

definition applyStripesWEffect ::
  "env \<Rightarrow> path \<Rightarrow> string \<Rightarrow> string \<Rightarrow> real \<Rightarrow> int \<Rightarrow> int \<Rightarrow> int \<Rightarrow> int \<Rightarrow> int \<Rightarrow> string \<Rightarrow> real \<Rightarrow> real \<Rightarrow> world
     \<Rightarrow> error + (path \<times> world)" where
  "applyStripesWEffect e curPath name tmpdir batchPerc amount thickMin thickMax spacingMin spacingMax
       dir noiseSize distort s =
     (case files s curPath of
        Some (Image width height) \<Rightarrow>
          and_then
            (stripesW_masks e width height amount thickMin thickMax spacingMin spacingMax dir
               noiseSize distort (s\<lparr>trace := trace s @ [Metadata curPath]\<rparr>))
            (\<lambda>((stripeMask, noiseMask, finalMask, overlay), s1).
               Inr (curPath,
                    s1\<lparr>files := (files s1)(curPath \<mapsto> Image width height),
                       trace := trace s1 @ [Composite curPath overlay, WriteFile curPath (Image width height)]\<rparr>))
      | _ \<Rightarrow> Inl (ENOENT curPath))"

section \<open>Black stripes (faxSim_effect_stripes.js)\<close>

text \<open>Here \<open>randInt\<close> is \<open>Math.floor(Math.random() * (max - min)) + min\<close>, without the upper end.\<close>

definition randInt_excl :: "env \<Rightarrow> int \<Rightarrow> int \<Rightarrow> world \<Rightarrow> int \<times> world" where
  "randInt_excl e lo hi s = (let (r, s1) = random e s in (\<lfloor>fmul r (real_of_int (hi - lo))\<rfloor> + lo, s1))"

text \<open>
  \<open>while (u === 0) u = Math.random();\<close> may never leave the loop: the function is
  partial, and \<open>None\<close> stands for not returning.
\<close>

partial_function (option) draw_nonzero :: "env \<Rightarrow> world \<Rightarrow> (real \<times> world) option" where
  "draw_nonzero e s =
     (if fst (random e s) = 0 then draw_nonzero e (snd (random e s)) else Some (random e s))"

definition randGaussian :: "env \<Rightarrow> world \<Rightarrow> (real \<times> world) option" where
  "randGaussian e s =
     (case draw_nonzero e s of
        None \<Rightarrow> None
      | Some (u, s1) \<Rightarrow>
          (case draw_nonzero e s1 of
             None \<Rightarrow> None
           | Some (v, s2) \<Rightarrow> Some (sqrt (- 2 * ln u) * cos (2 * pi * v), s2)))"

definition clamp :: "'a::linorder \<Rightarrow> 'a \<Rightarrow> 'a \<Rightarrow> 'a" where
  "clamp val lo hi = (if val < lo then lo else if val > hi then hi else val)"

text \<open>\<open>x.toFixed(1)\<close>, as the number it prints.\<close>

definition toFixed1 :: "real \<Rightarrow> real" where
  "toFixed1 x = real_of_int (js_round (x * 10)) / 10"

fun show_nat :: "nat \<Rightarrow> string" where
  "show_nat n =
     (if n < 10 then [char_of (48 + n)] else show_nat (n div 10) @ [char_of (48 + n mod 10)])"

datatype areaDir = DirRandom | DirAngle real

text \<open>
  One round of the speckle loop of a cluster: the point to plot, or none where the
  source says \<open>continue\<close>. A round that never leaves \<open>randGaussian\<close> is the error
  \<open>Hang\<close>: the call does not return.
\<close>

definition stripe_point ::
  "env \<Rightarrow> int \<Rightarrow> int \<Rightarrow> int \<Rightarrow> int \<Rightarrow> real \<Rightarrow> real \<Rightarrow> int \<Rightarrow> world \<Rightarrow> error + (mvg option \<times> world)" where
  "stripe_point e halfW halfH bw bh sigmaX sigmaY lineSpacing s =
     (case randGaussian e s of
        None \<Rightarrow> Inl Hang
      | Some (g1, s1) \<Rightarrow>
          (case randGaussian e s1 of
             None \<Rightarrow> Inl Hang
           | Some (g2, s2) \<Rightarrow>
               (let xi = clamp (js_round (real_of_int halfW + g1 * sigmaX)) 0 (bw - 1);
                    yi = clamp (js_round (real_of_int halfH + g2 * sigmaY)) 0 (bh - 1)
                in if lineSpacing > 1 \<and> yi mod lineSpacing \<noteq> 0 then Inr (None, s2)
                   else
                     (let dx = \<bar>real_of_int (xi - halfW)\<bar> / real_of_int halfW;
                          dy = \<bar>real_of_int (yi - halfH)\<bar> / real_of_int halfH;
                          fade = (1 - max dx dy) ^ 2
                      in if fade < 0.05 then Inr (None, s2)
                         else
                           (case randGaussian e s2 of
                              None \<Rightarrow> Inl Hang
                            | Some (g3, s3) \<Rightarrow>
                                (let jitter = g3 * 0.1;
                                     weight = clamp (fade + jitter) 0 1;
                                     (r, s4) = random e s3
                                 in if r > weight then Inr (None, s4)
                                    else Inr (Some (Point xi yi), s4)))))))"

text \<open>The speckle loop: \<open>pixelCount\<close> rounds, the plotted points in order.\<close>

primrec stripe_points ::
  "env \<Rightarrow> nat \<Rightarrow> int \<Rightarrow> int \<Rightarrow> int \<Rightarrow> int \<Rightarrow> real \<Rightarrow> real \<Rightarrow> int \<Rightarrow> world \<Rightarrow> error + (mvg list \<times> world)" where
  "stripe_points e 0 halfW halfH bw bh sigmaX sigmaY lineSpacing s = Inr ([], s)"
| "stripe_points e (Suc n) halfW halfH bw bh sigmaX sigmaY lineSpacing s =
     and_then (stripe_point e halfW halfH bw bh sigmaX sigmaY lineSpacing s) (\<lambda>(pt, s1).
     and_then (stripe_points e n halfW halfH bw bh sigmaX sigmaY lineSpacing s1) (\<lambda>(rest, s2).
     Inr ((case pt of None \<Rightarrow> rest | Some line \<Rightarrow> line # rest), s2)))"

text \<open>
  The length of the smear of a cluster centred at \<open>(cx, cy)\<close>: longer towards the
  centre of the page, within \<open>[smearLMin, smearLMax]\<close>.
\<close>

definition smear_len :: "nat \<Rightarrow> nat \<Rightarrow> int \<Rightarrow> int \<Rightarrow> real \<Rightarrow> real \<Rightarrow> real" where
  "smear_len w h cx cy smearLMin smearLMax =
     (let cxPage = real w / 2;
          cyPage = real h / 2;
          maxDist = sqrt (cxPage ^ 2 + cyPage ^ 2);
          dist = sqrt ((real_of_int cx - cxPage) ^ 2 + (real_of_int cy - cyPage) ^ 2);
          rawLen = smearLMin + (smearLMax - smearLMin) * (1 - dist / maxDist)
      in clamp rawLen smearLMin smearLMax)"

text \<open>
  One round of the cluster loop, for cluster \<open>a\<close> on the page \<open>composite\<close>: the new
  page, or the same one when the cluster has no speckle to plot.
\<close>

definition stripe_cluster ::
  "env \<Rightarrow> string \<Rightarrow> string \<Rightarrow> nat \<Rightarrow> nat \<Rightarrow> nat \<Rightarrow> int \<Rightarrow> int \<Rightarrow> real \<Rightarrow> bool \<Rightarrow> real \<Rightarrow> real \<Rightarrow> areaDir \<Rightarrow> int \<Rightarrow> string
     \<Rightarrow> path \<Rightarrow> world \<Rightarrow> error + (path \<times> world)" where
  "stripe_cluster e name tmpDir a w h areaWidthPx areaHeightPx density applySmear smearLMin smearLMax
       areaDir lineSpacing color composite s =
     (let (cx, s1) = randInt_excl e \<lfloor>real_of_int areaWidthPx / 2\<rfloor>
                       (int w - \<lceil>real_of_int areaWidthPx / 2\<rceil>) s;
          (cy, s2) = randInt_excl e \<lfloor>real_of_int areaHeightPx / 2\<rfloor>
                       (int h - \<lceil>real_of_int areaHeightPx / 2\<rceil>) s1;
          halfW = \<lfloor>real_of_int areaWidthPx / 2\<rfloor>;
          halfH = \<lfloor>real_of_int areaHeightPx / 2\<rfloor>;
          x0 = cx - halfW;
          y0 = cy - halfH;
          bw = areaWidthPx;
          bh = areaHeightPx;
          pixelCount = \<lfloor>fmul (fmul (fmul (double pi) (real_of_int halfW)) (real_of_int halfH)) density\<rfloor>
      in if pixelCount < 1 then Inr (composite, s2)
         else
           (let regionFrac = 0.8;
                sigmaX = (real_of_int bw * regionFrac) / 2;
                sigmaY = (real_of_int bh * regionFrac) / 2
            in and_then
                 (stripe_points e (nat pixelCount) halfW halfH bw bh sigmaX sigmaY lineSpacing s2)
                 (\<lambda>(points, s3).
               let mvgLines = [PushContext, Viewbox bw bh, Fill color, StrokeNone]
                              @ points @ [PopContext];
                   mvgPath = path_join tmpDir (name @ ''_stripes_blob'' @ show_nat a @ ''.mvg'');
                   s4 = writeFileSync mvgPath (Script mvgLines) s3;
                   base = path_join tmpDir (name @ ''_stripes_blob'' @ show_nat a @ ''_base.png'');
                   speck = path_join tmpDir (name @ ''_stripes_blob'' @ show_nat a @ ''_speck.png'')
               in and_then (magick [Lit ''-size'', Dim bw bh, Lit ''canvas:none'', File base] s4) (\<lambda>s5.
                  and_then (magick [File base, Lit ''-draw'', At mvgPath, File speck] s5) (\<lambda>s6.
                  and_then (unlinkSync base s6) (\<lambda>s7.
                  and_then (unlinkSync mvgPath s7) (\<lambda>s8.
                  and_then
                    (if applySmear
                     then
                       (let blurLen = smear_len w h cx cy smearLMin smearLMax;
                            (angle, s9) =
                              (case areaDir of
                                 DirRandom \<Rightarrow> (let (r, t) = random e s8 in (r * 360, t))
                               | DirAngle d \<Rightarrow> (d, s8));
                            smeared = path_join tmpDir
                                        (name @ ''_stripes_blob'' @ show_nat a @ ''_smear.png'')
                        in and_then
                             (magick [File speck,
                                      Lit ''-virtual-pixel'', Lit ''transparent'',
                                      Lit ''-motion-blur'', Smear (toFixed1 blurLen) angle,
                                      File smeared] s9) (\<lambda>s10.
                           and_then (unlinkSync speck s10) (\<lambda>s11.
                           Inr (smeared, s11))))
                     else Inr (speck, s8))
                    (\<lambda>(layer, s12).
                  let next = path_join tmpDir (name @ ''_stripes_blob'' @ show_nat a @ ''_comp.png'')
                  in and_then
                       (magick [File composite, File layer,
                                Lit ''-geometry'', Off x0 y0,
                                Lit ''-compose'', Lit ''Over'',
                                Lit ''-composite'',
                                File next] s12) (\<lambda>s13.
                     and_then (unlinkSync composite s13) (\<lambda>s14.
                     and_then (unlinkSync layer s14) (\<lambda>s15.
                     Inr (next, s15))))))))))))"

primrec stripe_clusters ::
  "env \<Rightarrow> nat \<Rightarrow> string \<Rightarrow> string \<Rightarrow> nat \<Rightarrow> nat \<Rightarrow> nat \<Rightarrow> int \<Rightarrow> int \<Rightarrow> real \<Rightarrow> bool \<Rightarrow> real \<Rightarrow> real \<Rightarrow> areaDir \<Rightarrow> int \<Rightarrow> string
     \<Rightarrow> path \<Rightarrow> world \<Rightarrow> error + (path \<times> world)" where
  "stripe_clusters e 0 name tmpDir a w h areaWidthPx areaHeightPx density applySmear smearLMin smearLMax
       areaDir lineSpacing color composite s = Inr (composite, s)"
| "stripe_clusters e (Suc n) name tmpDir a w h areaWidthPx areaHeightPx density applySmear smearLMin smearLMax
       areaDir lineSpacing color composite s =
     and_then
       (stripe_cluster e name tmpDir a w h areaWidthPx areaHeightPx density applySmear smearLMin smearLMax
          areaDir lineSpacing color composite s)
       (\<lambda>(composite1, s1).
          stripe_clusters e n name tmpDir (Suc a) w h areaWidthPx areaHeightPx density applySmear
            smearLMin smearLMax areaDir lineSpacing color composite1 s1)"

definition applyStripesEffect ::
  "env \<Rightarrow> path \<Rightarrow> string \<Rightarrow> string \<Rightarrow> real \<Rightarrow> int \<Rightarrow> int \<Rightarrow> int \<Rightarrow> real \<Rightarrow> bool \<Rightarrow> real \<Rightarrow> real \<Rightarrow> areaDir \<Rightarrow> int \<Rightarrow> string
     \<Rightarrow> world \<Rightarrow> error + (path \<times> world)" where
  "applyStripesEffect e cur name tmpDir batchPerc areasAmount areaWidthPx areaHeightPx density applySmear
       smearLMin smearLMax areaDir lineSpacing color s =
     (let (skip, s0) = batch_skip e batchPerc s in
      if skip then Inr (cur, s0)
      else
        and_then
          (magick_size [Lit ''identify'', Lit ''-format'', Lit ''%w %h'', File cur] cur s0)
          (\<lambda>((w, h), s1).
             stripe_clusters e (nat areasAmount) name tmpDir 0 w h areaWidthPx areaHeightPx density
               applySmear smearLMin smearLMax areaDir lineSpacing color cur s1))"

section \<open>The orchestrator (faxSim.js)\<close>

text \<open>
  The parsed INI file, one field for each key the pipeline reads. A key that the source
  tests against \<open>undefined\<close> is an option. The key \<open>applyRasterEffect\<close> is the field
  \<open>applyRasterEffectFlag\<close>, the function of the raster module having the name.
\<close>

record config =
  debugPipeline :: bool
  renderResolution :: real
  applyWarp :: bool
  warpBatchPerc :: real
  warpOffsetPx :: real
  warpOffsetMinPx :: real
  warpOffsetMaxPx :: real
  warpFinalScale :: real
  applyRotate :: bool
  rotateBatchPerc :: real
  rotateMin :: real
  rotateMax :: real
  rotateMirror :: bool
  rotateMirrorBatchPerc :: real
  rotateMirrorArray :: "string list"
  applyStripesW :: bool
  stripesWBatchPerc :: real
  stripesWAmount :: int
  stripesWThickMin :: int
  stripesWThickMax :: int
  stripesWSpacingMin :: int
  stripesWSpacingMax :: int
  stripesWDir :: string
  stripesWDistortSize :: real
  stripesWDistort :: real
  applyAlpha :: bool
  applyGray :: bool
  applyBlur :: bool
  blurRadBatchPerc :: real
  blurRadius :: real
  blurRadMin :: real
  blurRadMax :: real
  applyStripes :: bool
  stripesBatchPerc :: real
  stripesDensity :: real
  stripesDensityMin :: "real option"
  stripesDensityMax :: "real option"
  stripesAreasAmount :: int
  stripesAreaWidthPx :: int
  stripesAreaHeightPx :: int
  applyStripesSmear :: bool
  stripesSmearLMin :: real
  stripesSmearLMax :: real
  stripesAreaDir :: areaDir
  stripesLineSpacing :: int
  applyRasterization :: bool
  rasterMap :: string
  applyDither :: bool
  ditherMethod :: string
  ditherColors :: real
  applyNoiseW :: bool
  noiseWBatchPerc :: real
  noiseWDensity :: real
  noiseWDensityMin :: "real option"
  noiseWDensityMax :: "real option"
  applyRasterEffectFlag :: bool
  rasterBatchPerc :: real
  applyFinalThreshold :: bool
  finalThresholdValue :: real
  applyDropout :: bool
  dropoutBatchPerc :: real
  dropoutAmount :: real
  dropoutAmountMin :: "real option"
  dropoutAmountMax :: "real option"
  dropoutSize :: real
  applyTileshift :: bool
  tileshiftBatchPerc :: real
  amountTiles :: int
  amountTilesMin :: "int option"
  amountTilesMax :: "int option"
  tilesSize :: int
  tilesVariation :: int
  tilesOffsetX :: int
  tilesOffsetY :: int
  offsetVariation :: int

text \<open>
  The module-level constants: the configuration, the parsed list \<open>debugSkip\<close> of
  lower-case stage keys, and the directories. \<open>DEBUG_PIPELINE\<close> is
  \<open>cfg.debugPipeline === true\<close>.
\<close>

record statics =
  cfg :: config
  debugSkip :: "string list"
  srcDir :: string
  dstDir :: string

definition DEBUG_PIPELINE :: "statics \<Rightarrow> bool" where
  "DEBUG_PIPELINE c = (debugPipeline (cfg c) = True)"

definition debugDir :: "statics \<Rightarrow> string" where
  "debugDir c = path_join (dstDir c) ''debugPic''"

text \<open>The two module-level variables that change during a run.\<close>

record globals =
  isFirstPdf :: bool
  currentDebug :: bool

definition dbgLog :: "globals \<Rightarrow> string \<Rightarrow> world \<Rightarrow> world" where
  "dbgLog g stage s = (if currentDebug g then s\<lparr>trace := trace s @ [DebugLine stage]\<rparr> else s)"

definition dbgSnap :: "statics \<Rightarrow> globals \<Rightarrow> string \<Rightarrow> path \<Rightarrow> string \<Rightarrow> world \<Rightarrow> error + world" where
  "dbgSnap c g stage curPath name s =
     (if \<not> currentDebug g then Inr s
      else
        (let snap = path_join (debugDir c) (name @ ''_'' @ stage @ ''.png'') in
         and_then (copyFileSync curPath snap s) (\<lambda>s1.
         Inr (s1\<lparr>trace := trace s1 @ [DebugLine stage]\<rparr>))))"

text \<open>
  The gate of every stage: \<open>cfg.applyX && (!isDebugRun || !debugSkip.includes(key))\<close>.
\<close>

definition stage_on :: "statics \<Rightarrow> bool \<Rightarrow> bool \<Rightarrow> string \<Rightarrow> bool" where
  "stage_on c enabled isDebugRun key = (enabled \<and> (\<not> isDebugRun \<or> key \<notin> set (debugSkip c)))"

text \<open>1) Render the page.\<close>

definition stage_render :: "statics \<Rightarrow> globals \<Rightarrow> string \<Rightarrow> path \<Rightarrow> path \<Rightarrow> world \<Rightarrow> error + world" where
  "stage_render c g name input cur s =
     (let s1 = dbgLog g ''render'' s in
      and_then (magick [Lit ''-density'', Num (renderResolution (cfg c)), File input, File cur] s1) (\<lambda>s2.
      dbgSnap c g ''render'' cur name s2))"

text \<open>2) Warp.\<close>

definition stage_warp ::
  "env \<Rightarrow> statics \<Rightarrow> globals \<Rightarrow> bool \<Rightarrow> string \<Rightarrow> path \<Rightarrow> world \<Rightarrow> error + (path \<times> world)" where
  "stage_warp e c g isDebugRun name cur s =
     (let key = ''warp'';
          applyWarp = stage_on c (applyWarp (cfg c)) isDebugRun key;
          warpPerc = (if isDebugRun then 1 else warpBatchPerc (cfg c))
      in if \<not> applyWarp then Inr (cur, s)
         else
           (let (r, s1) = random e s in
            if r < warpPerc
            then
              (let (offsetPx, s2) =
                     (if isDebugRun then (warpOffsetPx (cfg c), s1)
                      else (let (r2, t) = random e s1
                            in (warpOffsetMinPx (cfg c)
                                  + r2 * (warpOffsetMaxPx (cfg c) - warpOffsetMinPx (cfg c)), t)));
                   s3 = dbgLog g ''warp'' s2
               in and_then
                    (applyWarpEffect e cur name (os_tmpdir e) True 1 offsetPx (warpFinalScale (cfg c)) s3)
                    (\<lambda>(cur1, s4).
                  and_then (dbgSnap c g ''warp'' cur1 name s4) (\<lambda>s5.
                  Inr (cur1, s5))))
            else Inr (cur, s1)))"

text \<open>The mirror after a rotation. \<open>modes[i]\<close> past the end is \<open>undefined\<close> and matches no case.\<close>

definition mirror_args :: "string \<Rightarrow> path \<Rightarrow> arg list option" where
  "mirror_args mode cur =
     (if mode = ''vertical'' then Some [File cur, Lit ''-flip'', File cur]
      else if mode = ''horizontal'' then Some [File cur, Lit ''-flop'', File cur]
      else if mode = ''horizontal+vertical'' then Some [File cur, Lit ''-flip'', Lit ''-flop'', File cur]
      else if mode = ''180'' then Some [File cur, Lit ''-rotate'', Lit ''180'', File cur]
      else None)"

definition stage_mirror ::
  "env \<Rightarrow> statics \<Rightarrow> globals \<Rightarrow> bool \<Rightarrow> string \<Rightarrow> path \<Rightarrow> world \<Rightarrow> error + world" where
  "stage_mirror e c g isDebugRun name cur s =
     (let mkey = ''rotatemirror'';
          applyMirror = stage_on c (rotateMirror (cfg c)) isDebugRun mkey;
          mirrorPerc = (if isDebugRun then 1 else rotateMirrorBatchPerc (cfg c))
      in if \<not> applyMirror then Inr s
         else
           (let (r, s1) = random e s in
            if r < mirrorPerc
            then
              (let modes = rotateMirrorArray (cfg c);
                   (r2, s2) = random e s1;
                   i = nat \<lfloor>fmul r2 (real (length modes))\<rfloor>;
                   s3 = dbgLog g ''rotateMirror'' s2
               in and_then
                    (if i < length modes
                     then (case mirror_args (modes ! i) cur of
                             Some args \<Rightarrow> magick args s3
                           | None \<Rightarrow> Inr s3)
                     else Inr s3)
                    (\<lambda>s4. dbgSnap c g ''rotateMirror'' cur name s4))
            else Inr s1))"

text \<open>3) Rotate, then mirror.\<close>

definition stage_rotate ::
  "env \<Rightarrow> statics \<Rightarrow> globals \<Rightarrow> bool \<Rightarrow> string \<Rightarrow> path \<Rightarrow> world \<Rightarrow> error + (path \<times> world)" where
  "stage_rotate e c g isDebugRun name cur s =
     (let key = ''rotate'';
          applyRotate = stage_on c (applyRotate (cfg c)) isDebugRun key;
          rotatePerc = (if isDebugRun then 1 else rotateBatchPerc (cfg c))
      in if \<not> applyRotate then Inr (cur, s)
         else
           (let (r, s1) = random e s in
            if r < rotatePerc
            then
              (let s2 = dbgLog g ''rotate'' s1 in
               and_then
                 (applyRotateEffect e cur name (os_tmpdir e) True rotatePerc
                    (rotateMin (cfg c)) (rotateMax (cfg c)) s2)
                 (\<lambda>(cur1, s3).
               and_then (dbgSnap c g ''rotate'' cur1 name s3) (\<lambda>s4.
               and_then (stage_mirror e c g isDebugRun name cur1 s4) (\<lambda>s5.
               Inr (cur1, s5)))))
            else Inr (cur, s1)))"

text \<open>3b) White stripes.\<close>

definition stage_stripesW ::
  "env \<Rightarrow> statics \<Rightarrow> globals \<Rightarrow> bool \<Rightarrow> string \<Rightarrow> path \<Rightarrow> world \<Rightarrow> error + (path \<times> world)" where
  "stage_stripesW e c g isDebugRun name cur s =
     (let key = ''stripesw'';
          applyStripesW = stage_on c (applyStripesW (cfg c)) isDebugRun key;
          stripesWPerc = (if isDebugRun then 1 else stripesWBatchPerc (cfg c))
      in if \<not> applyStripesW then Inr (cur, s)
         else
           (let (r, s1) = random e s in
            if r < stripesWPerc
            then
              (let s2 = dbgLog g ''stripesW'' s1 in
               and_then
                 (applyStripesWEffect e cur name (os_tmpdir e) 1
                    (stripesWAmount (cfg c))
                    (stripesWThickMin (cfg c)) (stripesWThickMax (cfg c))
                    (stripesWSpacingMin (cfg c)) (stripesWSpacingMax (cfg c))
                    (stripesWDir (cfg c))
                    (stripesWDistortSize (cfg c))
                    (stripesWDistort (cfg c)) s2)
                 (\<lambda>(cur1, s3).
               and_then
                 (if currentDebug g then dbgSnap c g ''stripesW'' cur1 name s3 else Inr s3)
                 (\<lambda>s4. Inr (cur1, s4))))
            else Inr (cur, s1)))"

text \<open>
  4), 5), 8), 9), 12): a stage that rewrites the page in place with one engine call.
\<close>

definition stage_inplace ::
  "statics \<Rightarrow> globals \<Rightarrow> bool \<Rightarrow> bool \<Rightarrow> string \<Rightarrow> string \<Rightarrow> arg list \<Rightarrow> string \<Rightarrow> path \<Rightarrow> world \<Rightarrow> error + world" where
  "stage_inplace c g isDebugRun enabled key stage ops name cur s =
     (if \<not> stage_on c enabled isDebugRun key then Inr s
      else
        (let s1 = dbgLog g stage s in
         and_then (magick ([File cur] @ ops @ [File cur]) s1) (\<lambda>s2.
         dbgSnap c g stage cur name s2)))"

definition stage_alpha :: "statics \<Rightarrow> globals \<Rightarrow> bool \<Rightarrow> string \<Rightarrow> path \<Rightarrow> world \<Rightarrow> error + world" where
  "stage_alpha c g isDebugRun name cur s =
     stage_inplace c g isDebugRun (applyAlpha (cfg c)) ''alpha'' ''alpha''
       [Lit ''-alpha'', Lit ''remove'', Lit ''-alpha'', Lit ''off'',
        Lit ''-background'', Lit ''white'', Lit ''-flatten''] name cur s"

definition stage_gray :: "statics \<Rightarrow> globals \<Rightarrow> bool \<Rightarrow> string \<Rightarrow> path \<Rightarrow> world \<Rightarrow> error + world" where
  "stage_gray c g isDebugRun name cur s =
     stage_inplace c g isDebugRun (applyGray (cfg c)) ''gray'' ''gray''
       [Lit ''-colorspace'', Lit ''gray''] name cur s"

text \<open>6) Gaussian blur.\<close>

definition stage_blur ::
  "env \<Rightarrow> statics \<Rightarrow> globals \<Rightarrow> bool \<Rightarrow> string \<Rightarrow> path \<Rightarrow> world \<Rightarrow> error + world" where
  "stage_blur e c g isDebugRun name cur s =
     (let key = ''blur'';
          doBlur = stage_on c (applyBlur (cfg c)) isDebugRun key;
          blurPerc = (if isDebugRun then 1 else blurRadBatchPerc (cfg c))
      in if \<not> doBlur then Inr s
         else
           (let (radius, s1) =
                  (if \<not> isDebugRun
                   then (let (r, t) = random e s in
                         if r < blurPerc
                         then (let (r2, t2) = random e t
                               in (blurRadMin (cfg c) + r2 * (blurRadMax (cfg c) - blurRadMin (cfg c)), t2))
                         else (blurRadius (cfg c), t))
                   else (blurRadius (cfg c), s));
                s2 = dbgLog g ''blur'' s1
            in and_then (magick [File cur, Lit ''-blur'', Sigma radius, File cur] s2) (\<lambda>s3.
               dbgSnap c g ''blur'' cur name s3)))"

text \<open>7) Black stripes.\<close>

definition stage_stripes ::
  "env \<Rightarrow> statics \<Rightarrow> globals \<Rightarrow> bool \<Rightarrow> string \<Rightarrow> path \<Rightarrow> world \<Rightarrow> error + (path \<times> world)" where
  "stage_stripes e c g isDebugRun name cur s =
     (let key = ''stripes'';
          applyStripes = stage_on c (applyStripes (cfg c)) isDebugRun key;
          stripePerc = (if isDebugRun then 1 else stripesBatchPerc (cfg c))
      in if \<not> applyStripes then Inr (cur, s)
         else
           (let (r, s1) = random e s in
            if r < stripePerc
            then
              (let (density, s2) =
                     (case (isDebugRun, stripesDensityMin (cfg c), stripesDensityMax (cfg c)) of
                        (False, Some lo, Some hi) \<Rightarrow>
                          (let (r2, t) = random e s1 in (lo + r2 * (hi - lo), t))
                      | _ \<Rightarrow> (stripesDensity (cfg c), s1));
                   s3 = dbgLog g ''stripes'' s2
               in and_then
                    (applyStripesEffect e cur name (os_tmpdir e) 1
                       (stripesAreasAmount (cfg c))
                       (stripesAreaWidthPx (cfg c))
                       (stripesAreaHeightPx (cfg c))
                       density
                       (applyStripesSmear (cfg c))
                       (stripesSmearLMin (cfg c))
                       (stripesSmearLMax (cfg c))
                       (stripesAreaDir (cfg c))
                       (stripesLineSpacing (cfg c))
                       ''black'' s3)
                    (\<lambda>(cur1, s4).
                  and_then (dbgSnap c g ''stripes'' cur1 name s4) (\<lambda>s5.
                  Inr (cur1, s5))))
            else Inr (cur, s1)))"

text \<open>8) Ordered dither, 9) error-diffusion dither.\<close>

definition stage_rasterization :: "statics \<Rightarrow> globals \<Rightarrow> bool \<Rightarrow> string \<Rightarrow> path \<Rightarrow> world \<Rightarrow> error + world" where
  "stage_rasterization c g isDebugRun name cur s =
     stage_inplace c g isDebugRun (applyRasterization (cfg c)) ''rasterization'' ''raster''
       [Lit ''+dither'', Lit ''-ordered-dither'', Lit (rasterMap (cfg c)), Lit ''-colors'', Lit ''2'']
       name cur s"

definition stage_dither :: "statics \<Rightarrow> globals \<Rightarrow> bool \<Rightarrow> string \<Rightarrow> path \<Rightarrow> world \<Rightarrow> error + world" where
  "stage_dither c g isDebugRun name cur s =
     stage_inplace c g isDebugRun (applyDither (cfg c)) ''dither'' ''dither''
       [Lit ''-dither'', Lit (ditherMethod (cfg c)), Lit ''-colors'', Num (ditherColors (cfg c))]
       name cur s"

text \<open>10) White noise.\<close>

definition stage_noiseW ::
  "env \<Rightarrow> statics \<Rightarrow> globals \<Rightarrow> bool \<Rightarrow> string \<Rightarrow> path \<Rightarrow> world \<Rightarrow> error + (path \<times> world)" where
  "stage_noiseW e c g isDebugRun name cur s =
     (let key = ''noisew'';
          applyNoiseW = stage_on c (applyNoiseW (cfg c)) isDebugRun key;
          noisePerc = (if isDebugRun then 1 else noiseWBatchPerc (cfg c))
      in if \<not> applyNoiseW then Inr (cur, s)
         else
           (let (r, s1) = random e s in
            if r < noisePerc
            then
              (let (density, s2) =
                     (case (isDebugRun, noiseWDensityMin (cfg c), noiseWDensityMax (cfg c)) of
                        (False, Some lo, Some hi) \<Rightarrow>
                          (let (r2, t) = random e s1 in (lo + r2 * (hi - lo), t))
                      | _ \<Rightarrow> (noiseWDensity (cfg c), s1));
                   s3 = dbgLog g ''noiseW'' s2
               in and_then (applyNoiseWEffect e cur name (os_tmpdir e) 1 density s3) (\<lambda>(cur1, s4).
                  and_then (dbgSnap c g ''noiseW'' cur1 name s4) (\<lambda>s5.
                  Inr (cur1, s5))))
            else Inr (cur, s1)))"

text \<open>11) Standalone raster: the batch probability goes to the effect, which gates alone.\<close>

definition stage_rasterEffect ::
  "env \<Rightarrow> statics \<Rightarrow> globals \<Rightarrow> bool \<Rightarrow> string \<Rightarrow> path \<Rightarrow> world \<Rightarrow> error + (path \<times> world)" where
  "stage_rasterEffect e c g isDebugRun name cur s =
     (let key = ''rastereffect'';
          applyRaster = stage_on c (applyRasterEffectFlag (cfg c)) isDebugRun key;
          rasterPerc = (if isDebugRun then 1 else rasterBatchPerc (cfg c))
      in if \<not> applyRaster then Inr (cur, s)
         else
           (let s1 = dbgLog g ''rasterEffect'' s in
            and_then (applyRasterEffect e cur name (os_tmpdir e) rasterPerc (rasterMap (cfg c)) s1)
              (\<lambda>(cur1, s2).
            and_then (dbgSnap c g ''rasterEffect'' cur1 name s2) (\<lambda>s3.
            Inr (cur1, s3)))))"

text \<open>12) Final threshold.\<close>

definition stage_finalThreshold :: "statics \<Rightarrow> globals \<Rightarrow> bool \<Rightarrow> string \<Rightarrow> path \<Rightarrow> world \<Rightarrow> error + world" where
  "stage_finalThreshold c g isDebugRun name cur s =
     stage_inplace c g isDebugRun (applyFinalThreshold (cfg c)) ''finalthreshold'' ''finalThreshold''
       [Lit ''-threshold'', Pct (finalThresholdValue (cfg c))] name cur s"

text \<open>13) Dropout.\<close>

definition stage_dropout ::
  "env \<Rightarrow> statics \<Rightarrow> globals \<Rightarrow> bool \<Rightarrow> string \<Rightarrow> path \<Rightarrow> world \<Rightarrow> error + (path \<times> world)" where
  "stage_dropout e c g isDebugRun name cur s =
     (let key = ''dropout'';
          applyDrop = stage_on c (applyDropout (cfg c)) isDebugRun key;
          dropPerc = (if isDebugRun then 1 else dropoutBatchPerc (cfg c))
      in if \<not> applyDrop then Inr (cur, s)
         else
           (let (r, s1) = random e s in
            if r < dropPerc
            then
              (let (amount, s2) =
                     (case (isDebugRun, dropoutAmountMin (cfg c), dropoutAmountMax (cfg c)) of
                        (False, Some lo, Some hi) \<Rightarrow>
                          (let (r2, t) = random e s1 in (lo + r2 * (hi - lo), t))
                      | _ \<Rightarrow> (dropoutAmount (cfg c), s1));
                   s3 = dbgLog g ''dropout'' s2
               in and_then
                    (applyDropoutEffect e cur name (os_tmpdir e) amount (dropoutSize (cfg c)) 1 s3)
                    (\<lambda>(cur1, s4).
                  and_then (dbgSnap c g ''dropout'' cur1 name s4) (\<lambda>s5.
                  Inr (cur1, s5))))
            else Inr (cur, s1)))"

text \<open>14) Tile shift.\<close>

definition stage_tileshift ::
  "env \<Rightarrow> statics \<Rightarrow> globals \<Rightarrow> bool \<Rightarrow> string \<Rightarrow> path \<Rightarrow> world \<Rightarrow> error + (path \<times> world)" where
  "stage_tileshift e c g isDebugRun name cur s =
     (let key = ''tileshift'';
          applyTiles = stage_on c (applyTileshift (cfg c)) isDebugRun key;
          tilePerc = (if isDebugRun then 1 else tileshiftBatchPerc (cfg c))
      in if \<not> applyTiles then Inr (cur, s)
         else
           (let (r, s1) = random e s in
            if r < tilePerc
            then
              (let (amt, s2) =
                     (case (isDebugRun, amountTilesMin (cfg c), amountTilesMax (cfg c)) of
                        (False, Some lo, Some hi) \<Rightarrow>
                          (let (r2, t) = random e s1
                           in (lo + \<lfloor>fmul r2 (real_of_int (hi - lo + 1))\<rfloor>, t))
                      | _ \<Rightarrow> (amountTiles (cfg c), s1));
                   s3 = dbgLog g ''tileshift'' s2
               in and_then
                    (applyTileshiftEffect e cur name (os_tmpdir e) 1 amt
                       (tilesSize (cfg c)) (tilesVariation (cfg c))
                       (tilesOffsetX (cfg c)) (tilesOffsetY (cfg c))
                       (offsetVariation (cfg c)) s3)
                    (\<lambda>(cur1, s4).
                  and_then (dbgSnap c g ''tileshift'' cur1 name s4) (\<lambda>s5.
                  Inr (cur1, s5))))
            else Inr (cur, s1)))"

text \<open>15) Compress to Group4 TIFF, with the snapshot of the debug run.\<close>

definition stage_compress :: "statics \<Rightarrow> globals \<Rightarrow> string \<Rightarrow> path \<Rightarrow> path \<Rightarrow> world \<Rightarrow> error + world" where
  "stage_compress c g name cur output s =
     (let s1 = dbgLog g ''compress'' s in
      and_then
        (magick [File cur, Lit ''-monochrome'', Lit ''-compress'', Lit ''Group4'', File output] s1)
        (\<lambda>s2.
           if currentDebug g
           then (let snap = path_join (debugDir c) (name @ ''_compress.tif'') in
                 and_then (copyFileSync output snap s2) (\<lambda>s3.
                 Inr (s3\<lparr>trace := trace s3 @ [DebugLine ''compress'']\<rparr>)))
           else Inr s2))"

text \<open>
  \<open>path.extname\<close> and \<open>path.parse(file).name\<close> on a directory entry (a name without
  separator): the extension starts at the last dot, and is empty when there is no dot,
  when the only dot leads the name, and for \<open>..\<close>.
\<close>

definition extname :: "string \<Rightarrow> string" where
  "extname f =
     (let suf = takeWhile (\<lambda>ch. ch \<noteq> CHR ''.'') (rev f) in
      if length suf = length f \<or> length suf + 1 = length f \<or> f = ''..'' then []
      else CHR ''.'' # rev suf)"

definition parse_name :: "string \<Rightarrow> string" where
  "parse_name f = take (length f - length (extname f)) f"

definition toLowerCase :: "string \<Rightarrow> string" where
  "toLowerCase str =
     map (\<lambda>ch. let n = (of_char ch :: nat) in if 65 \<le> n \<and> n \<le> 90 then char_of (n + 32) else ch) str"

text \<open>
  The stages of one document, from the rendering to the cleanup and the closing log
  line. \<open>isDebugRun\<close> is the constant the round takes from \<open>currentDebug\<close>.
\<close>

definition doc_stages :: "env \<Rightarrow> statics \<Rightarrow> globals \<Rightarrow> string \<Rightarrow> world \<Rightarrow> error + world" where
  "doc_stages e c g file s =
     (let isDebugRun = currentDebug g;
          name = parse_name file;
          input = path_join (srcDir c) file;
          cur = path_join (os_tmpdir e) (name @ ''_base.png'');
          output = path_join (dstDir c) (name @ ''.tif'')
      in and_then (stage_render c g name input cur s) (\<lambda>s1.
         and_then (stage_warp e c g isDebugRun name cur s1) (\<lambda>(cur, s2).
         and_then (stage_rotate e c g isDebugRun name cur s2) (\<lambda>(cur, s3).
         and_then (stage_stripesW e c g isDebugRun name cur s3) (\<lambda>(cur, s4).
         and_then (stage_alpha c g isDebugRun name cur s4) (\<lambda>s5.
         and_then (stage_gray c g isDebugRun name cur s5) (\<lambda>s6.
         and_then (stage_blur e c g isDebugRun name cur s6) (\<lambda>s7.
         and_then (stage_stripes e c g isDebugRun name cur s7) (\<lambda>(cur, s8).
         and_then (stage_rasterization c g isDebugRun name cur s8) (\<lambda>s9.
         and_then (stage_dither c g isDebugRun name cur s9) (\<lambda>s10.
         and_then (stage_noiseW e c g isDebugRun name cur s10) (\<lambda>(cur, s11).
         and_then (stage_rasterEffect e c g isDebugRun name cur s11) (\<lambda>(cur, s12).
         and_then (stage_finalThreshold c g isDebugRun name cur s12) (\<lambda>s13.
         and_then (stage_dropout e c g isDebugRun name cur s13) (\<lambda>(cur, s14).
         and_then (stage_tileshift e c g isDebugRun name cur s14) (\<lambda>(cur, s15).
         and_then (stage_compress c g name cur output s15) (\<lambda>s16.
         and_then (unlinkSync cur (dbgLog g ''cleanup'' s16)) (\<lambda>s17.
         Inr (s17\<lparr>trace := trace s17 @ [Console (''Converted '' @ file)]\<rparr>)))))))))))))))))))"

text \<open>
  One round of the main loop, for a directory entry that is a PDF: the round sets
  \<open>currentDebug = DEBUG_PIPELINE && isFirstPdf\<close>, runs the stages, and clears both
  flags after the first document.
\<close>

definition processPdf :: "env \<Rightarrow> statics \<Rightarrow> string \<Rightarrow> globals \<times> world \<Rightarrow> error + (globals \<times> world)" where
  "processPdf e c file gs =
     (let g = (fst gs)\<lparr>currentDebug := DEBUG_PIPELINE c \<and> isFirstPdf (fst gs)\<rparr>
      in and_then (doc_stages e c g file (snd gs)) (\<lambda>s1.
         Inr (if isFirstPdf g then g\<lparr>isFirstPdf := False, currentDebug := False\<rparr> else g, s1)))"

text \<open>The main loop over the entries of the source directory.\<close>

primrec main_loop :: "env \<Rightarrow> statics \<Rightarrow> string list \<Rightarrow> globals \<times> world \<Rightarrow> error + (globals \<times> world)" where
  "main_loop e c [] gs = Inr gs"
| "main_loop e c (file # rest) gs =
     (if toLowerCase (extname file) \<noteq> ''.pdf'' then main_loop e c rest gs
      else and_then (processPdf e c file gs) (\<lambda>gs1. main_loop e c rest gs1))"

text \<open>The module-level variables at start: \<open>isFirstPdf = true\<close>, \<open>currentDebug = false\<close>.\<close>

definition globals0 :: globals where
  "globals0 = \<lparr>isFirstPdf = True, currentDebug = False\<rparr>"

definition main :: "env \<Rightarrow> statics \<Rightarrow> string list \<Rightarrow> world \<Rightarrow> error + (globals \<times> world)" where
  "main e c entries s = main_loop e c entries (globals0, s)"

section \<open>Vocabulary of the properties\<close>

fun is_point :: "mvg \<Rightarrow> bool" where
  "is_point (Point x y) = True"
| "is_point _ = False"

fun is_rectangle :: "mvg \<Rightarrow> bool" where
  "is_rectangle (Rectangle a b c d) = True"
| "is_rectangle _ = False"

text \<open>A small environment and world on which the functions are run.\<close>

definition env0 :: env where
  "env0 = \<lparr>rnd = (\<lambda>n. 0), stamp = (\<lambda>r. ''0_0''), os_tmpdir = ''/tmp'',
           trim_box = (\<lambda>p s. (1, 1, 0, 0)), sharp_blur = (\<lambda>w h r b. b)\<rparr>"

definition world0 :: world where
  "world0 = \<lparr>files = [''/tmp/doc_base.png'' \<mapsto> Image 10 10], trace = [], draws = 0\<rparr>"

definition env_half :: env where
  "env_half = \<lparr>rnd = (\<lambda>n. 1 / 2), stamp = (\<lambda>r. ''0_0''), os_tmpdir = ''/tmp'',
           trim_box = (\<lambda>p s. (1, 1, 0, 0)), sharp_blur = (\<lambda>w h r b. b)\<rparr>"

text \<open>
  A page of two by two pixels, and a random stream that is zero but for its fourth
  and sixth value: with a distortion of one half, the noise of the white stripes
  keeps the first and the third pixel and erases the other two.
\<close>

definition world_2x2 :: world where
  "world_2x2 = \<lparr>files = [''/tmp/doc_base.png'' \<mapsto> Image 2 2], trace = [], draws = 0\<rparr>"

definition env_mix :: env where
  "env_mix = \<lparr>rnd = (\<lambda>n. if n = 3 \<or> n = 5 then 3 / 4 else 0), stamp = (\<lambda>r. ''0_0''),
              os_tmpdir = ''/tmp'', trim_box = (\<lambda>p s. (1, 1, 0, 0)), sharp_blur = (\<lambda>w h r b. b)\<rparr>"

text \<open>The double nearest to 0.03, a little below it.\<close>

definition double_003 :: real where
  "double_003 = 1080863910568919 / 36028797018963968"

text \<open>The paste rectangle of a tile lies within a canvas of \<open>w\<close> by \<open>h\<close>.\<close>

fun paste_in_canvas :: "int \<Rightarrow> int \<Rightarrow> int \<times> int \<times> int \<times> int \<times> int \<Rightarrow> bool" where
  "paste_in_canvas w h (ts, x, y, px, py) = (0 \<le> px \<and> px + ts \<le> w \<and> 0 \<le> py \<and> py + ts \<le> h)"

text \<open>The shipped configuration (faxSim.ini).\<close>

definition cfg0 :: config where
  "cfg0 = \<lparr>
     debugPipeline = True,
     renderResolution = 200,
     applyWarp = True,
     warpBatchPerc = 0.1,
     warpOffsetPx = - 100,
     warpOffsetMinPx = - 200,
     warpOffsetMaxPx = 200,
     warpFinalScale = 0.90,
     applyRotate = True,
     rotateBatchPerc = 0.2,
     rotateMin = - 2,
     rotateMax = 5,
     rotateMirror = True,
     rotateMirrorBatchPerc = 0.2,
     rotateMirrorArray = [''180''],
     applyStripesW = True,
     stripesWBatchPerc = 1,
     stripesWAmount = 10,
     stripesWThickMin = 1,
     stripesWThickMax = 5,
     stripesWSpacingMin = 1,
     stripesWSpacingMax = 2,
     stripesWDir = ''vertical'',
     stripesWDistortSize = 5,
     stripesWDistort = 0.5,
     applyAlpha = True,
     applyGray = True,
     applyBlur = True,
     blurRadBatchPerc = 1,
     blurRadius = 0.1,
     blurRadMin = 0.1,
     blurRadMax = 1.0,
     applyStripes = True,
     stripesBatchPerc = 0.1,
     stripesDensity = 0.75,
     stripesDensityMin = Some 0.1,
     stripesDensityMax = Some 1,
     stripesAreasAmount = 4,
     stripesAreaWidthPx = 200,
     stripesAreaHeightPx = 2000,
     applyStripesSmear = True,
     stripesSmearLMin = 1,
     stripesSmearLMax = 15,
     stripesAreaDir = DirAngle 180,
     stripesLineSpacing = 2,
     applyRasterization = False,
     rasterMap = ''o4x4'',
     applyDither = True,
     ditherMethod = ''FloydSteinberg'',
     ditherColors = 2,
     applyNoiseW = True,
     noiseWBatchPerc = 0.7,
     noiseWDensity = 0.01,
     noiseWDensityMin = Some 0.01,
     noiseWDensityMax = Some 0.05,
     applyRasterEffectFlag = False,
     rasterBatchPerc = 0.1,
     applyFinalThreshold = True,
     finalThresholdValue = 80,
     applyDropout = True,
     dropoutBatchPerc = 0.4,
     dropoutAmount = 0.01,
     dropoutAmountMin = Some 0.01,
     dropoutAmountMax = Some 0.1,
     dropoutSize = 2,
     applyTileshift = True,
     tileshiftBatchPerc = 0.4,
     amountTiles = 10,
     amountTilesMin = Some 1,
     amountTilesMax = Some 20,
     tilesSize = 100,
     tilesVariation = 200,
     tilesOffsetX = 1,
     tilesOffsetY = 1,
     offsetVariation = 1\<rparr>"

definition statics0 :: statics where
  "statics0 = \<lparr>cfg = cfg0,
                debugSkip = [''rotate'', ''rasterization'', ''rastereffect''],
                srcDir = ''output/pdf'',
                dstDir = ''output/tiff''\<rparr>"

text \<open>
  A run with every optional stage switched off, over a directory with two documents
  and one other file.
\<close>

definition statics_plain :: statics where
  "statics_plain =
     statics0\<lparr>cfg := cfg0\<lparr>applyWarp := False, applyRotate := False, applyStripesW := False,
                           applyAlpha := False, applyGray := False, applyBlur := False,
                           applyStripes := False, applyDither := False, applyNoiseW := False,
                           applyFinalThreshold := False, applyDropout := False,
                           applyTileshift := False\<rparr>\<rparr>"

definition world_pdfs :: world where
  "world_pdfs = \<lparr>files = [''output/pdf/a.pdf'' \<mapsto> Image 10 10, ''output/pdf/b.pdf'' \<mapsto> Image 10 10],
                  trace = [], draws = 0\<rparr>"

text \<open>The shipped configuration with every stage key in the exclusion list.\<close>

definition statics_all :: statics where
  "statics_all =
     statics0\<lparr>debugSkip := [''warp'', ''rotate'', ''rotatemirror'', ''stripesw'', ''alpha'', ''gray'',
                              ''blur'', ''stripes'', ''rasterization'', ''dither'', ''noisew'',
                              ''rastereffect'', ''finalthreshold'', ''dropout'', ''tileshift'']\<rparr>"

text \<open>The shipped configuration with a rotate probability of one half.\<close>

definition statics_half :: statics where
  "statics_half = statics0\<lparr>cfg := cfg0\<lparr>rotateBatchPerc := 1 / 2\<rparr>\<rparr>"

text \<open>The module-level variables after the first document.\<close>

definition globals_later :: globals where
  "globals_later = \<lparr>isFirstPdf = False, currentDebug = False\<rparr>"

text \<open>The module-level variables while the first document of a debug run is processed.\<close>

definition globals_debug :: globals where
  "globals_debug = \<lparr>isFirstPdf = True, currentDebug = True\<rparr>"

text \<open>The debug output in a trace: the \<open>[DEBUG]\<close> lines and the snapshot copies.\<close>

fun is_debug :: "event \<Rightarrow> bool" where
  "is_debug (DebugLine stage) = True"
| "is_debug (CopyFile src dst) = True"
| "is_debug _ = False"

definition debug_events :: "world \<Rightarrow> event list" where
  "debug_events s = filter is_debug (trace s)"

text \<open>
  A computation is quiet for the debug output \<open>D\<close> when the world it returns, if it
  returns, has exactly this debug output; \<open>st\<close> reads the world off the result.
\<close>

definition quiet :: "event list \<Rightarrow> error + 'a \<Rightarrow> ('a \<Rightarrow> world) \<Rightarrow> bool" where
  "quiet D m st = (case m of Inl err \<Rightarrow> True | Inr x \<Rightarrow> debug_events (st x) = D)"

section \<open>Properties\<close>

subsection \<open>Running the modules\<close>

lemma and_then_Inr [simp]: "and_then (Inr x) f = f x"
  by (simp add: and_then_def)

lemma and_then_Inl [simp]: "and_then (Inl e) f = Inl e"
  by (simp add: and_then_def)

lemma and_then_eq_Inr: "and_then m f = Inr y \<longleftrightarrow> (\<exists>x. m = Inr x \<and> f x = Inr y)"
  by (cases m) simp_all

lemma random_files [simp]: "files (snd (random e s)) = files s"
  and random_trace [simp]: "trace (snd (random e s)) = trace s"
  and random_draws [simp]: "draws (snd (random e s)) = Suc (draws s)"
  and random_fst [simp]: "fst (random e s) = rnd e (draws s)"
  by (simp_all add: random_def)

lemma dropout_rects_files [simp]: "files (snd (dropout_rects e n w h b s)) = files s"
  by (induction n arbitrary: s) (simp_all add: Let_def split_beta)

lemma speckle_points_files [simp]: "files (snd (speckle_points e n w h s)) = files s"
  by (induction n arbitrary: s) (simp_all add: Let_def split_beta)

lemma randInt_files [simp]: "files (snd (randInt e lo hi s)) = files s"
  by (simp add: randInt_def split_beta)

lemma tile_place_files [simp]: "files (snd (tile_place e w h a b c d v s)) = files s"
  by (simp add: tile_place_def Let_def split_beta)

lemma tile_args_files [simp]: "files (snd (tile_args e n w h a b c d v s)) = files s"
  by (induction n arbitrary: s) (simp_all add: Let_def split_beta)

lemma tile_args_paths [simp]: "arg_paths (fst (tile_args e n w h a b c d v s)) = []"
  by (induction n arbitrary: s) (simp_all add: Let_def split_beta)

lemma arg_paths_append [simp]: "arg_paths (xs @ ys) = arg_paths xs @ arg_paths ys"
  by (induction xs rule: arg_paths.induct) simp_all

lemma im_dims_append: "im_dims fs prev (xs @ ys) d = im_dims fs (if xs = [] then prev else Some (last xs)) ys (im_dims fs prev xs d)"
  by (induction xs arbitrary: prev d) simp_all

lemma tile_args_dims [simp]:
  "prev \<noteq> Some (Lit ''-extent'') \<Longrightarrow> prev \<noteq> Some (Lit ''-size'') \<Longrightarrow>
   im_dims fs prev (fst (tile_args e n w h a b c d v s)) (Some x) = Some x"
  by (induction n arbitrary: s prev) (simp_all add: Let_def split_beta sets_canvas_def)


subsection \<open>Skipping\<close>

lemma batch_skip_one [simp]: "1 \<le> p \<Longrightarrow> batch_skip e p s = (False, s)"
  by (simp add: batch_skip_def)

lemma batch_skip_low:
  "p < 1 \<Longrightarrow> batch_skip e p s = (p < rnd e (draws s), s\<lparr>draws := Suc (draws s)\<rparr>)"
  by (simp add: batch_skip_def random_def)

lemma enabled_skip_on [simp]:
  "enabled_skip e True p s = (p < rnd e (draws s), s\<lparr>draws := Suc (draws s)\<rparr>)"
  by (simp add: enabled_skip_def random_def)

lemma enabled_skip_off [simp]: "enabled_skip e False p s = (True, s)"
  by (simp add: enabled_skip_def)

lemma rotate_skips:
  "p < rnd e (draws s) \<Longrightarrow>
   applyRotateEffect e cur name tmpDir True p lo hi s = Inr (cur, s\<lparr>draws := Suc (draws s)\<rparr>)"
  by (simp add: applyRotateEffect_def)

lemma warp_skips:
  "p < rnd e (draws s) \<Longrightarrow>
   applyWarpEffect e cur name tmpDir True p off sc s = Inr (cur, s\<lparr>draws := Suc (draws s)\<rparr>)"
  by (simp add: applyWarpEffect_def)

lemma dropout_skips:
  "p < 1 \<Longrightarrow> p < rnd e (draws s) \<Longrightarrow>
   applyDropoutEffect e cur name tmpDir amount sz p s = Inr (cur, s\<lparr>draws := Suc (draws s)\<rparr>)"
  by (simp add: applyDropoutEffect_def batch_skip_low)

lemma noiseW_skips:
  "p < 1 \<Longrightarrow> p < rnd e (draws s) \<Longrightarrow>
   applyNoiseWEffect e cur name tmpDir p density s = Inr (cur, s\<lparr>draws := Suc (draws s)\<rparr>)"
  by (simp add: applyNoiseWEffect_def batch_skip_low)

lemma raster_skips:
  "p < 1 \<Longrightarrow> p < rnd e (draws s) \<Longrightarrow>
   applyRasterEffect e cur name tmpDir p rmap s = Inr (cur, s\<lparr>draws := Suc (draws s)\<rparr>)"
  by (simp add: applyRasterEffect_def batch_skip_low)

lemma tileshift_skips:
  "p < 1 \<Longrightarrow> p < rnd e (draws s) \<Longrightarrow>
   applyTileshiftEffect e cur name tmpDir p amt ts tv ox oy ov s
     = Inr (cur, s\<lparr>draws := Suc (draws s)\<rparr>)"
  by (simp add: applyTileshiftEffect_def batch_skip_low)

lemma stripes_skips:
  "p < 1 \<Longrightarrow> p < rnd e (draws s) \<Longrightarrow>
   applyStripesEffect e cur name tmpDir p n aw ah density smear lmin lmax dir sp color s
     = Inr (cur, s\<lparr>draws := Suc (draws s)\<rparr>)"
  by (simp add: applyStripesEffect_def batch_skip_low)

subsection \<open>Applying\<close>

lemma rotate_applies:
  assumes "files s cur = Some (Image w h)" and "\<not> p < rnd e (draws s)"
  shows "\<exists>s'. applyRotateEffect e cur name tmpDir True p lo hi s
                = Inr (path_join tmpDir (name @ ''_rotated.png''), s')
            \<and> files s' = ((files s)(path_join tmpDir (name @ ''_rotated.png'') \<mapsto> Image w h))(cur := None)"
  using assms
  by (simp add: applyRotateEffect_def identify_def magick_size_def
      magick_def unlinkSync_def sets_canvas_def Let_def random_def)

lemma warp_paths_differ:
  "path_join tmpDir (name @ ''_warp_pad.png'') \<noteq> path_join tmpDir (name @ ''_warp.png'')"
proof
  assume "path_join tmpDir (name @ ''_warp_pad.png'') = path_join tmpDir (name @ ''_warp.png'')"
  then have "length (path_join tmpDir (name @ ''_warp_pad.png''))
               = length (path_join tmpDir (name @ ''_warp.png''))"
    by simp
  then show False by (simp add: path_join_def)
qed

lemma warp_applies:
  assumes "files s cur = Some (Image w h)" and "\<not> p < rnd e (draws s)"
      and "cur \<noteq> path_join tmpDir (name @ ''_warp_pad.png'')"
      and "\<And>t. fst (trim_box e (path_join tmpDir (name @ ''_warp_pad.png'')) t) \<noteq> 0"
      and "\<And>t. fst (snd (trim_box e (path_join tmpDir (name @ ''_warp_pad.png'')) t)) \<noteq> 0"
  shows "\<exists>s'. applyWarpEffect e cur name tmpDir True p off sc s
                = Inr (path_join tmpDir (name @ ''_warp.png''), s')
            \<and> files s' = ((files s)(path_join tmpDir (name @ ''_warp.png'') \<mapsto> Image w h))
                            (cur := None, path_join tmpDir (name @ ''_warp_pad.png'') := None)"
  using assms warp_paths_differ [of tmpDir name]
  by (simp add: applyWarpEffect_def magick_box_def magick_size_def
      magick_def unlinkSync_def sets_canvas_def Let_def split_beta)

lemma raster_applies:
  assumes "files s cur = Some (Image w h)" and "1 \<le> p"
  shows "\<exists>s'. applyRasterEffect e cur name tmpDir p rmap s
                = Inr (path_join tmpDir (name @ ''_raster.png''), s')
            \<and> files s' = ((files s)(path_join tmpDir (name @ ''_raster.png'') \<mapsto> Image w h))(cur := None)"
  using assms
  by (simp add: applyRasterEffect_def magick_def unlinkSync_def Let_def)

lemma tileshift_applies:
  assumes "files s cur = Some (Image w h)" and "1 \<le> p"
  shows "\<exists>s'. applyTileshiftEffect e cur name tmpDir p amt ts tv ox oy ov s
                = Inr (path_join tmpDir (name @ ''_tiles.png''), s')
            \<and> files s' = ((files s)(path_join tmpDir (name @ ''_tiles.png'') \<mapsto> Image w h))(cur := None)"
  using assms
  by (simp add: applyTileshiftEffect_def identify_def magick_size_def magick_def unlinkSync_def
      Let_def split_beta)

lemma identify_ok [simp]:
  "files s cur = Some (Image w h) \<Longrightarrow>
   identify cur s
     = Inr ((w, h), s\<lparr>trace := trace s @ [Exec [Lit ''identify'', Lit ''-format'', Lit ''%w %h'', File cur]]\<rparr>)"
  by (simp add: identify_def magick_size_def)

lemma batch_skip_files [simp]: "files (snd (batch_skip e p s)) = files s"
  and batch_skip_trace [simp]: "trace (snd (batch_skip e p s)) = trace s"
  by (simp_all add: batch_skip_def random_def)

lemma batch_skip_passes:
  "(p < 1 \<longrightarrow> rnd e (draws s) \<le> p) \<Longrightarrow> \<not> fst (batch_skip e p s)"
  by (auto simp add: batch_skip_def random_def)

lemma speckle_points_trace [simp]: "trace (snd (speckle_points e n w h s)) = trace s"
  by (induction n arbitrary: s) (simp_all add: Let_def split_beta)

lemma speckle_points_length [simp]: "length (fst (speckle_points e n w h s)) = n"
  by (induction n arbitrary: s) (simp_all add: Let_def split_beta)

lemma speckle_points_all [simp]: "list_all is_point (fst (speckle_points e n w h s))"
  by (induction n arbitrary: s) (simp_all add: Let_def split_beta)

lemma dropout_rects_trace [simp]: "trace (snd (dropout_rects e n w h b s)) = trace s"
  by (induction n arbitrary: s) (simp_all add: Let_def split_beta)

lemma dropout_rects_length [simp]: "length (fst (dropout_rects e n w h b s)) = n"
  by (induction n arbitrary: s) (simp_all add: Let_def split_beta)

lemma dropout_rects_all [simp]: "list_all is_rectangle (fst (dropout_rects e n w h b s))"
  by (induction n arbitrary: s) (simp_all add: Let_def split_beta)

lemma draw_tail:
  assumes "files s cur = Some (Image w h)" and "files s mvg \<noteq> None" and "mvg \<noteq> cur"
  shows "\<exists>s'. and_then (magick [File cur, Lit ''-draw'', At mvg, File out] s) (\<lambda>s3.
               and_then (unlinkSync cur s3) (\<lambda>s4.
               and_then (unlinkSync mvg s4) (\<lambda>s5.
               Inr (out, s5)))) = Inr (out, s')
             \<and> files s' = ((files s)(out \<mapsto> Image w h))(cur := None, mvg := None)
             \<and> trace s' = trace s @ [Exec [File cur, Lit ''-draw'', At mvg, File out],
                                      Unlink cur, Unlink mvg]"
proof -
  have ne: "cur \<noteq> mvg"
    using assms(3) by blast
  show ?thesis
    using assms ne by (simp add: magick_def unlinkSync_def)
qed

text \<open>The script of a dropout and the script of the white noise, as they are written.\<close>

lemma createMVG_Some:
  assumes "1 \<le> \<lfloor>fdiv (fmul (fmul (real w) (real h)) amount)
                  (fmul (real_of_int (blockSize_of sz)) (real_of_int (blockSize_of sz)))\<rfloor>"
  shows "\<exists>r rects s'. createMVG e w h amount sz s
            = Some (path_join (os_tmpdir e) (''mvg_dropout_'' @ stamp e r @ ''.mvg''), s')
          \<and> files s' = (files s)(path_join (os_tmpdir e) (''mvg_dropout_'' @ stamp e r @ ''.mvg'')
               \<mapsto> Script ([PushContext, Viewbox (int w) (int h), Fill ''white'', StrokeNone]
                            @ rects @ [PopContext]))
          \<and> trace s' = trace s @ [WriteFile (path_join (os_tmpdir e) (''mvg_dropout_'' @ stamp e r @ ''.mvg''))
               (Script ([PushContext, Viewbox (int w) (int h), Fill ''white'', StrokeNone]
                            @ rects @ [PopContext]))]
          \<and> list_all is_rectangle rects
          \<and> int (length rects)
              = \<lfloor>fdiv (fmul (fmul (real w) (real h)) amount)
                  (fmul (real_of_int (blockSize_of sz)) (real_of_int (blockSize_of sz)))\<rfloor>"
proof -
  define n where "n = nat \<lfloor>fdiv (fmul (fmul (real w) (real h)) amount)
                  (fmul (real_of_int (blockSize_of sz)) (real_of_int (blockSize_of sz)))\<rfloor>"
  define rects where "rects = fst (dropout_rects e n w h (blockSize_of sz) s)"
  define s1 where "s1 = snd (dropout_rects e n w h (blockSize_of sz) s)"
  define r where "r = rnd e (draws s1)"
  define P where "P = path_join (os_tmpdir e) (''mvg_dropout_'' @ stamp e r @ ''.mvg'')"
  define scr where "scr = Script ([PushContext, Viewbox (int w) (int h), Fill ''white'', StrokeNone]
                            @ rects @ [PopContext])"
  have run: "createMVG e w h amount sz s = Some (P, writeFileSync P scr (snd (random e s1)))"
    using assms
    by (simp add: createMVG_def Let_def split_beta n_def rects_def s1_def r_def P_def scr_def
        del: append.simps)
  have f: "files (writeFileSync P scr (snd (random e s1))) = (files s)(P \<mapsto> scr)"
    by (simp add: writeFileSync_def s1_def)
  have t: "trace (writeFileSync P scr (snd (random e s1))) = trace s @ [WriteFile P scr]"
    by (simp add: writeFileSync_def s1_def)
  have a: "list_all is_rectangle rects"
    by (simp add: rects_def)
  have l: "int (length rects) = \<lfloor>fdiv (fmul (fmul (real w) (real h)) amount)
                  (fmul (real_of_int (blockSize_of sz)) (real_of_int (blockSize_of sz)))\<rfloor>"
    using assms by (simp add: rects_def n_def)
  from run f t a l show ?thesis
    unfolding P_def scr_def by blast
qed

lemma createSpeckleMVG_Some:
  assumes "1 \<le> \<lfloor>fmul (fmul (real w) (real h)) density\<rfloor>"
  shows "\<exists>r pts s'. createSpeckleMVG e w h density color s
            = Some (path_join (os_tmpdir e) (''noiseW_'' @ stamp e r @ ''.mvg''), s')
          \<and> files s' = (files s)(path_join (os_tmpdir e) (''noiseW_'' @ stamp e r @ ''.mvg'')
               \<mapsto> Script ([PushContext, Viewbox (int w) (int h), Fill color, StrokeNone]
                            @ pts @ [PopContext]))
          \<and> trace s' = trace s @ [WriteFile (path_join (os_tmpdir e) (''noiseW_'' @ stamp e r @ ''.mvg''))
               (Script ([PushContext, Viewbox (int w) (int h), Fill color, StrokeNone]
                            @ pts @ [PopContext]))]
          \<and> list_all is_point pts
          \<and> int (length pts) = \<lfloor>fmul (fmul (real w) (real h)) density\<rfloor>"
proof -
  define n where "n = nat \<lfloor>fmul (fmul (real w) (real h)) density\<rfloor>"
  define pts where "pts = fst (speckle_points e n w h s)"
  define s1 where "s1 = snd (speckle_points e n w h s)"
  define r where "r = rnd e (draws s1)"
  define P where "P = path_join (os_tmpdir e) (''noiseW_'' @ stamp e r @ ''.mvg'')"
  define scr where "scr = Script ([PushContext, Viewbox (int w) (int h), Fill color, StrokeNone]
                            @ pts @ [PopContext])"
  have run: "createSpeckleMVG e w h density color s = Some (P, writeFileSync P scr (snd (random e s1)))"
    using assms
    by (simp add: createSpeckleMVG_def Let_def split_beta n_def pts_def s1_def r_def P_def scr_def
        del: append.simps)
  have f: "files (writeFileSync P scr (snd (random e s1))) = (files s)(P \<mapsto> scr)"
    by (simp add: writeFileSync_def s1_def)
  have t: "trace (writeFileSync P scr (snd (random e s1))) = trace s @ [WriteFile P scr]"
    by (simp add: writeFileSync_def s1_def)
  have a: "list_all is_point pts"
    by (simp add: pts_def)
  have l: "int (length pts) = \<lfloor>fmul (fmul (real w) (real h)) density\<rfloor>"
    using assms by (simp add: pts_def n_def)
  from run f t a l show ?thesis
    unfolding P_def scr_def by blast
qed

lemma createMVG_None:
  assumes "\<lfloor>fdiv (fmul (fmul (real w) (real h)) amount)
              (fmul (real_of_int (blockSize_of sz)) (real_of_int (blockSize_of sz)))\<rfloor> < 1"
  shows "createMVG e w h amount sz s = None"
  using assms by (simp add: createMVG_def Let_def)

lemma createSpeckleMVG_None:
  assumes "\<lfloor>fmul (fmul (real w) (real h)) density\<rfloor> < 1"
  shows "createSpeckleMVG e w h density color s = None"
  using assms by (simp add: createSpeckleMVG_def Let_def)

lemma dropout_applies:
  assumes "files s cur = Some (Image w h)"
      and "p < 1 \<longrightarrow> rnd e (draws s) \<le> p"
      and "1 \<le> \<lfloor>fdiv (fmul (fmul (real w) (real h)) amount)
                  (fmul (real_of_int (blockSize_of sz)) (real_of_int (blockSize_of sz)))\<rfloor>"
      and "\<And>r. path_join (os_tmpdir e) (''mvg_dropout_'' @ stamp e r @ ''.mvg'') \<noteq> cur"
  shows "\<exists>mvg rects s'.
           applyDropoutEffect e cur name tmpDir amount sz p s
             = Inr (path_join tmpDir (name @ ''_rb.png''), s')
         \<and> files s' = ((files s)(path_join tmpDir (name @ ''_rb.png'') \<mapsto> Image w h))
                         (cur := None, mvg := None)
         \<and> trace s' = trace s @
             [Exec [Lit ''identify'', Lit ''-format'', Lit ''%w %h'', File cur],
              WriteFile mvg (Script ([PushContext, Viewbox (int w) (int h), Fill ''white'', StrokeNone]
                                      @ rects @ [PopContext])),
              Exec [File cur, Lit ''-draw'', At mvg, File (path_join tmpDir (name @ ''_rb.png''))],
              Unlink cur, Unlink mvg]
         \<and> list_all is_rectangle rects
         \<and> int (length rects)
             = \<lfloor>fdiv (fmul (fmul (real w) (real h)) amount)
                 (fmul (real_of_int (blockSize_of sz)) (real_of_int (blockSize_of sz)))\<rfloor>"
proof -
  define s0 where "s0 = snd (batch_skip e p s)"
  define s1 where "s1 = s0\<lparr>trace := trace s0 @ [Exec [Lit ''identify'', Lit ''-format'', Lit ''%w %h'', File cur]]\<rparr>"
  define out where "out = path_join tmpDir (name @ ''_rb.png'')"
  have pass: "\<not> fst (batch_skip e p s)"
    using assms(2) by (rule batch_skip_passes)
  have f0: "files s0 cur = Some (Image w h)"
    using assms(1) by (simp add: s0_def)
  obtain r rects s2 where
    c: "createMVG e w h amount sz s1
          = Some (path_join (os_tmpdir e) (''mvg_dropout_'' @ stamp e r @ ''.mvg''), s2)"
    and f: "files s2 = (files s1)(path_join (os_tmpdir e) (''mvg_dropout_'' @ stamp e r @ ''.mvg'')
               \<mapsto> Script ([PushContext, Viewbox (int w) (int h), Fill ''white'', StrokeNone]
                            @ rects @ [PopContext]))"
    and t: "trace s2 = trace s1 @ [WriteFile (path_join (os_tmpdir e) (''mvg_dropout_'' @ stamp e r @ ''.mvg''))
               (Script ([PushContext, Viewbox (int w) (int h), Fill ''white'', StrokeNone]
                            @ rects @ [PopContext]))]"
    and a: "list_all is_rectangle rects"
    and l: "int (length rects)
             = \<lfloor>fdiv (fmul (fmul (real w) (real h)) amount)
                 (fmul (real_of_int (blockSize_of sz)) (real_of_int (blockSize_of sz)))\<rfloor>"
    using createMVG_Some [OF assms(3)] by blast
  define mvg where "mvg = path_join (os_tmpdir e) (''mvg_dropout_'' @ stamp e r @ ''.mvg'')"
  note c = c [folded mvg_def] and f = f [folded mvg_def] and t = t [folded mvg_def]
  have ne: "mvg \<noteq> cur"
    using assms(4) [of r] by (simp add: mvg_def)
  have "\<exists>s'. and_then (magick [File cur, Lit ''-draw'', At mvg, File out] s2) (\<lambda>s3.
               and_then (unlinkSync cur s3) (\<lambda>s4.
               and_then (unlinkSync mvg s4) (\<lambda>s5. Inr (out, s5))))
              = Inr (out, s')
             \<and> files s' = ((files s2)(out \<mapsto> Image w h))(cur := None, mvg := None)
             \<and> trace s' = trace s2 @ [Exec [File cur, Lit ''-draw'', At mvg, File out],
                                       Unlink cur, Unlink mvg]"
    using f0 ne by (intro draw_tail) (simp_all add: f s1_def)
  then obtain s' where
    tail: "and_then (magick [File cur, Lit ''-draw'', At mvg, File out] s2) (\<lambda>s3.
               and_then (unlinkSync cur s3) (\<lambda>s4.
               and_then (unlinkSync mvg s4) (\<lambda>s5. Inr (out, s5))))
              = Inr (out, s')"
    and f': "files s' = ((files s2)(out \<mapsto> Image w h))(cur := None, mvg := None)"
    and t': "trace s' = trace s2 @ [Exec [File cur, Lit ''-draw'', At mvg, File out],
                                     Unlink cur, Unlink mvg]"
    by blast
  have run: "applyDropoutEffect e cur name tmpDir amount sz p s = Inr (out, s')"
    using pass f0 c tail
    by (simp add: applyDropoutEffect_def Let_def split_beta s0_def [symmetric] s1_def [symmetric]
        out_def [symmetric])
  have files: "files s' = ((files s)(out \<mapsto> Image w h))(cur := None, mvg := None)"
    by (rule ext) (simp add: f' f s1_def s0_def)
  have trace: "trace s' = trace s @
             [Exec [Lit ''identify'', Lit ''-format'', Lit ''%w %h'', File cur],
              WriteFile mvg (Script ([PushContext, Viewbox (int w) (int h), Fill ''white'', StrokeNone]
                                      @ rects @ [PopContext])),
              Exec [File cur, Lit ''-draw'', At mvg, File out],
              Unlink cur, Unlink mvg]"
    by (simp add: t' t s1_def s0_def)
  from run files trace a l show ?thesis
    unfolding out_def by blast
qed

lemma noiseW_applies:
  assumes "files s cur = Some (Image w h)"
      and "p < 1 \<longrightarrow> rnd e (draws s) \<le> p"
      and "1 \<le> \<lfloor>fmul (fmul (real w) (real h)) density\<rfloor>"
      and "\<And>r. path_join (os_tmpdir e) (''noiseW_'' @ stamp e r @ ''.mvg'') \<noteq> cur"
  shows "\<exists>mvg pts s'.
           applyNoiseWEffect e cur name tmpDir p density s
             = Inr (path_join tmpDir (name @ ''_noiseW.png''), s')
         \<and> files s' = ((files s)(path_join tmpDir (name @ ''_noiseW.png'') \<mapsto> Image w h))
                         (cur := None, mvg := None)
         \<and> trace s' = trace s @
             [Exec [Lit ''identify'', Lit ''-format'', Lit ''%w %h'', File cur],
              WriteFile mvg (Script ([PushContext, Viewbox (int w) (int h), Fill ''white'', StrokeNone]
                                      @ pts @ [PopContext])),
              Exec [File cur, Lit ''-draw'', At mvg, File (path_join tmpDir (name @ ''_noiseW.png''))],
              Unlink cur, Unlink mvg]
         \<and> list_all is_point pts
         \<and> int (length pts) = \<lfloor>fmul (fmul (real w) (real h)) density\<rfloor>"
proof -
  define s0 where "s0 = snd (batch_skip e p s)"
  define s1 where "s1 = s0\<lparr>trace := trace s0 @ [Exec [Lit ''identify'', Lit ''-format'', Lit ''%w %h'', File cur]]\<rparr>"
  define out where "out = path_join tmpDir (name @ ''_noiseW.png'')"
  have pass: "\<not> fst (batch_skip e p s)"
    using assms(2) by (rule batch_skip_passes)
  have f0: "files s0 cur = Some (Image w h)"
    using assms(1) by (simp add: s0_def)
  obtain r pts s2 where
    c: "createSpeckleMVG e w h density ''white'' s1
          = Some (path_join (os_tmpdir e) (''noiseW_'' @ stamp e r @ ''.mvg''), s2)"
    and f: "files s2 = (files s1)(path_join (os_tmpdir e) (''noiseW_'' @ stamp e r @ ''.mvg'')
               \<mapsto> Script ([PushContext, Viewbox (int w) (int h), Fill ''white'', StrokeNone]
                            @ pts @ [PopContext]))"
    and t: "trace s2 = trace s1 @ [WriteFile (path_join (os_tmpdir e) (''noiseW_'' @ stamp e r @ ''.mvg''))
               (Script ([PushContext, Viewbox (int w) (int h), Fill ''white'', StrokeNone]
                            @ pts @ [PopContext]))]"
    and a: "list_all is_point pts"
    and l: "int (length pts) = \<lfloor>fmul (fmul (real w) (real h)) density\<rfloor>"
    using createSpeckleMVG_Some [OF assms(3)] by blast
  define mvg where "mvg = path_join (os_tmpdir e) (''noiseW_'' @ stamp e r @ ''.mvg'')"
  note c = c [folded mvg_def] and f = f [folded mvg_def] and t = t [folded mvg_def]
  have ne: "mvg \<noteq> cur"
    using assms(4) [of r] by (simp add: mvg_def)
  have "\<exists>s'. and_then (magick [File cur, Lit ''-draw'', At mvg, File out] s2) (\<lambda>s3.
               and_then (unlinkSync cur s3) (\<lambda>s4.
               and_then (unlinkSync mvg s4) (\<lambda>s5. Inr (out, s5))))
              = Inr (out, s')
             \<and> files s' = ((files s2)(out \<mapsto> Image w h))(cur := None, mvg := None)
             \<and> trace s' = trace s2 @ [Exec [File cur, Lit ''-draw'', At mvg, File out],
                                       Unlink cur, Unlink mvg]"
    using f0 ne by (intro draw_tail) (simp_all add: f s1_def)
  then obtain s' where
    tail: "and_then (magick [File cur, Lit ''-draw'', At mvg, File out] s2) (\<lambda>s3.
               and_then (unlinkSync cur s3) (\<lambda>s4.
               and_then (unlinkSync mvg s4) (\<lambda>s5. Inr (out, s5))))
              = Inr (out, s')"
    and f': "files s' = ((files s2)(out \<mapsto> Image w h))(cur := None, mvg := None)"
    and t': "trace s' = trace s2 @ [Exec [File cur, Lit ''-draw'', At mvg, File out],
                                     Unlink cur, Unlink mvg]"
    by blast
  have run: "applyNoiseWEffect e cur name tmpDir p density s = Inr (out, s')"
    using pass f0 c tail
    by (simp add: applyNoiseWEffect_def Let_def split_beta s0_def [symmetric] s1_def [symmetric]
        out_def [symmetric])
  have files: "files s' = ((files s)(out \<mapsto> Image w h))(cur := None, mvg := None)"
    by (rule ext) (simp add: f' f s1_def s0_def)
  have trace: "trace s' = trace s @
             [Exec [Lit ''identify'', Lit ''-format'', Lit ''%w %h'', File cur],
              WriteFile mvg (Script ([PushContext, Viewbox (int w) (int h), Fill ''white'', StrokeNone]
                                      @ pts @ [PopContext])),
              Exec [File cur, Lit ''-draw'', At mvg, File out],
              Unlink cur, Unlink mvg]"
    by (simp add: t' t s1_def s0_def)
  from run files trace a l show ?thesis
    unfolding out_def by blast
qed

lemma dropout_noop:
  assumes "files s cur = Some (Image w h)"
      and "\<lfloor>fdiv (fmul (fmul (real w) (real h)) amount)
              (fmul (real_of_int (blockSize_of sz)) (real_of_int (blockSize_of sz)))\<rfloor> < 1"
  shows "\<exists>s'. applyDropoutEffect e cur name tmpDir amount sz p s = Inr (cur, s')
            \<and> files s' = files s
            \<and> (trace s' = trace s
                 \<or> trace s' = trace s @ [Exec [Lit ''identify'', Lit ''-format'', Lit ''%w %h'', File cur]])"
  using assms
  by (simp add: applyDropoutEffect_def batch_skip_def random_def createMVG_None Let_def split_beta)

subsection \<open>Rounding\<close>

lemma pow2_pos [simp]: "0 < pow2 k"
  by (simp add: pow2_def)

lemma ulp_pos [simp]: "0 < ulp x"
  by (simp add: ulp_def)

lemma ulp_neq0 [simp]: "ulp x \<noteq> 0"
  using ulp_pos [of x] by linarith

lemma round_even_nonneg: "0 \<le> q \<Longrightarrow> 0 \<le> round_even q"
  by (simp add: round_even_def Let_def)

lemma round_even_near: "\<bar>real_of_int (round_even q) - q\<bar> \<le> 1 / 2"
  unfolding round_even_def Let_def by (simp add: abs_le_iff)

text \<open>Rounding moves a number by at most half the distance between the doubles around it.\<close>

lemma double_near: "\<bar>double x - x\<bar> \<le> ulp x / 2"
proof (cases "x = 0")
  case True
  then show ?thesis by (simp add: double_def less_imp_le)
next
  case False
  have "double x - x = (real_of_int (round_even (x / ulp x)) - x / ulp x) * ulp x"
    using False ulp_pos [of x] by (simp add: double_def left_diff_distrib)
  then have "\<bar>double x - x\<bar> = \<bar>real_of_int (round_even (x / ulp x)) - x / ulp x\<bar> * ulp x"
    using ulp_pos [of x] by (simp add: abs_mult less_imp_le)
  also have "\<dots> \<le> 1 / 2 * ulp x"
    using round_even_near [of "x / ulp x"] ulp_pos [of x]
    by (intro mult_right_mono) (simp_all add: less_imp_le)
  finally show ?thesis by simp
qed

lemma double_nonneg: "0 \<le> x \<Longrightarrow> 0 \<le> double x"
  using round_even_nonneg [of "x / ulp x"] ulp_pos [of x]
  by (simp add: double_def less_imp_le)

lemma fmul_nonneg: "0 \<le> a \<Longrightarrow> 0 \<le> b \<Longrightarrow> 0 \<le> fmul a b"
  by (simp add: fmul_def double_nonneg)

lemma fmul_zero [simp]: "fmul 0 x = 0" "fmul x 0 = 0"
  by (simp_all add: fmul_def double_def)

text \<open>What evaluates \<open>double\<close> on a numeral.\<close>

lemmas double_eval =
  fadd_def fsub_def fmul_def fdiv_def double_def ulp_def binade_def round_even_def pow2_def
  ilog2.simps Let_def

subsection \<open>Draw scripts\<close>

lemma count_003: "\<lfloor>fmul (fmul 10 10) double_003\<rfloor> = 3"
  by (simp add: double_003_def double_eval)

lemma page0: "files world0 ''/tmp/doc_base.png'' = Some (Image 10 10)"
  by (simp add: world0_def)

text \<open>
  C6. White noise on a page of \<open>W\<close> by \<open>H\<close> pixels at density \<open>d\<close>. The count is
  \<open>floor(W*H*d)\<close> as the program computes it, each product a double. When the count is
  at least one and the call gets past its batch gate, \<open>applyNoiseWEffect\<close> asks the
  engine for the size of the page, writes one script, hands that script to \<open>-draw\<close>
  and deletes the page and the script; the script is the four header lines, exactly
  \<open>floor(W*H*d)\<close> lines that are each a single point, and the closing line. This holds
  for every random stream, which only decides where the points lie. (The page is
  assumed not to be the script file itself.)
\<close>

theorem noiseW_point_count:
  assumes "files s cur = Some (Image w h)"
      and "batchPerc < 1 \<longrightarrow> rnd e (draws s) \<le> batchPerc"
      and "\<forall>r. path_join (os_tmpdir e) (''noiseW_'' @ stamp e r @ ''.mvg'') \<noteq> cur"
      and "1 \<le> \<lfloor>fmul (fmul (real w) (real h)) d\<rfloor>"
  shows "\<exists>mvg pts s'.
           applyNoiseWEffect e cur name tmpDir batchPerc d s
             = Inr (path_join tmpDir (name @ ''_noiseW.png''), s')
         \<and> trace s' = trace s @
             [Exec [Lit ''identify'', Lit ''-format'', Lit ''%w %h'', File cur],
              WriteFile mvg (Script ([PushContext, Viewbox (int w) (int h), Fill ''white'', StrokeNone]
                                      @ pts @ [PopContext])),
              Exec [File cur, Lit ''-draw'', At mvg, File (path_join tmpDir (name @ ''_noiseW.png''))],
              Unlink cur, Unlink mvg]
         \<and> list_all is_point pts
         \<and> int (length pts) = \<lfloor>fmul (fmul (real w) (real h)) d\<rfloor>"
proof -
  have ne: "path_join (os_tmpdir e) (''noiseW_'' @ stamp e r @ ''.mvg'') \<noteq> cur" for r
    using assms(3) by blast
  from noiseW_applies [OF assms(1) assms(2) assms(4) ne, of name tmpDir]
  show ?thesis by blast
qed

text \<open>
  On a page of ten by ten pixels at the density 0.03 the script has three points: the
  double 0.03 is below 0.03, and the product with 100 rounds to 3.
\<close>

theorem noiseW_point_count_witness:
  "\<exists>mvg pts s'.
      applyNoiseWEffect env0 ''/tmp/doc_base.png'' ''doc'' ''/tmp'' 1 double_003 world0
        = Inr (''/tmp/doc_noiseW.png'', s')
    \<and> trace s' =
        [Exec [Lit ''identify'', Lit ''-format'', Lit ''%w %h'', File ''/tmp/doc_base.png''],
         WriteFile mvg (Script ([PushContext, Viewbox 10 10, Fill ''white'', StrokeNone]
                                 @ pts @ [PopContext])),
         Exec [File ''/tmp/doc_base.png'', Lit ''-draw'', At mvg, File ''/tmp/doc_noiseW.png''],
         Unlink ''/tmp/doc_base.png'', Unlink mvg]
    \<and> list_all is_point pts
    \<and> length pts = 3"
proof -
  have gate: "(1::real) < 1 \<longrightarrow> rnd env0 (draws world0) \<le> 1"
    by simp
  have script: "\<forall>r. path_join (os_tmpdir env0) (''noiseW_'' @ stamp env0 r @ ''.mvg'') \<noteq> ''/tmp/doc_base.png''"
    by (simp add: env0_def path_join_def)
  have count: "1 \<le> \<lfloor>fmul (fmul (real (10::nat)) (real (10::nat))) double_003\<rfloor>"
    by (simp del: le_floor_iff one_le_floor add: count_003)
  have tr: "trace world0 = []"
    by (simp add: world0_def)
  from noiseW_point_count [OF page0 gate script count, of "''doc''" "''/tmp''"]
  show ?thesis
    by (simp add: count_003 tr path_join_def)
qed

text \<open>
  C7. Dropout on a page of \<open>W\<close> by \<open>H\<close> pixels. The count is
  \<open>floor(W*H*coverage / blockArea)\<close> as the program computes it, each product and the
  quotient a double. When the count is at least one and the call gets past its batch
  gate, \<open>applyDropoutEffect\<close> writes one script of exactly that many rectangles between
  the header and the closing line, hands it to \<open>-draw\<close> and deletes the page and the
  script (the page is assumed not to be the script file itself). When the count is
  below one, the call returns the path it was given, with the gate letting it through
  or not: the files are the same as before, so the page is still there and nothing
  was created, and the only engine call, if any, is the query for the size of the page.
\<close>

theorem dropout_block_count:
  assumes "files s cur = Some (Image w h)"
      and "count = \<lfloor>fdiv (fmul (fmul (real w) (real h)) coverage)
                     (fmul (real_of_int (blockSize_of sz)) (real_of_int (blockSize_of sz)))\<rfloor>"
  shows "(1 \<le> count \<and> (perc < 1 \<longrightarrow> rnd e (draws s) \<le> perc)
            \<and> (\<forall>r. path_join (os_tmpdir e) (''mvg_dropout_'' @ stamp e r @ ''.mvg'') \<noteq> cur) \<longrightarrow>
            (\<exists>mvg rects s'.
                applyDropoutEffect e cur name tmpDir coverage sz perc s
                  = Inr (path_join tmpDir (name @ ''_rb.png''), s')
              \<and> trace s' = trace s @
                  [Exec [Lit ''identify'', Lit ''-format'', Lit ''%w %h'', File cur],
                   WriteFile mvg (Script ([PushContext, Viewbox (int w) (int h), Fill ''white'', StrokeNone]
                                           @ rects @ [PopContext])),
                   Exec [File cur, Lit ''-draw'', At mvg, File (path_join tmpDir (name @ ''_rb.png''))],
                   Unlink cur, Unlink mvg]
              \<and> list_all is_rectangle rects
              \<and> int (length rects) = count))
       \<and> (count < 1 \<longrightarrow>
            (\<exists>s'. applyDropoutEffect e cur name tmpDir coverage sz perc s = Inr (cur, s')
               \<and> files s' = files s
               \<and> (trace s' = trace s
                    \<or> trace s' = trace s @ [Exec [Lit ''identify'', Lit ''-format'', Lit ''%w %h'', File cur]])))"
proof (intro conjI impI)
  assume a: "1 \<le> count \<and> (perc < 1 \<longrightarrow> rnd e (draws s) \<le> perc)
            \<and> (\<forall>r. path_join (os_tmpdir e) (''mvg_dropout_'' @ stamp e r @ ''.mvg'') \<noteq> cur)"
  then have ne: "path_join (os_tmpdir e) (''mvg_dropout_'' @ stamp e r @ ''.mvg'') \<noteq> cur" for r
    by blast
  from a have gate: "perc < 1 \<longrightarrow> rnd e (draws s) \<le> perc"
    by blast
  from a have c: "1 \<le> \<lfloor>fdiv (fmul (fmul (real w) (real h)) coverage)
                     (fmul (real_of_int (blockSize_of sz)) (real_of_int (blockSize_of sz)))\<rfloor>"
    by (simp add: assms(2))
  from dropout_applies [OF assms(1) gate c ne, of name tmpDir]
  show "\<exists>mvg rects s'.
                applyDropoutEffect e cur name tmpDir coverage sz perc s
                  = Inr (path_join tmpDir (name @ ''_rb.png''), s')
              \<and> trace s' = trace s @
                  [Exec [Lit ''identify'', Lit ''-format'', Lit ''%w %h'', File cur],
                   WriteFile mvg (Script ([PushContext, Viewbox (int w) (int h), Fill ''white'', StrokeNone]
                                           @ rects @ [PopContext])),
                   Exec [File cur, Lit ''-draw'', At mvg, File (path_join tmpDir (name @ ''_rb.png''))],
                   Unlink cur, Unlink mvg]
              \<and> list_all is_rectangle rects
              \<and> int (length rects) = count"
    unfolding assms(2) by blast
next
  assume "count < 1"
  then have c: "\<lfloor>fdiv (fmul (fmul (real w) (real h)) coverage)
                     (fmul (real_of_int (blockSize_of sz)) (real_of_int (blockSize_of sz)))\<rfloor> < 1"
    by (simp add: assms(2))
  from dropout_noop [OF assms(1) c]
  show "\<exists>s'. applyDropoutEffect e cur name tmpDir coverage sz perc s = Inr (cur, s')
               \<and> files s' = files s
               \<and> (trace s' = trace s
                    \<or> trace s' = trace s @ [Exec [Lit ''identify'', Lit ''-format'', Lit ''%w %h'', File cur]])"
    by blast
qed

text \<open>
  On a page of ten by ten pixels, blocks of one pixel at a coverage of 0.03 give three
  rectangles (the product with 100 rounds to 3), and a coverage of zero gives none: the
  page is returned as it is.
\<close>

theorem dropout_block_count_witness:
  "(\<exists>mvg rects s'.
       applyDropoutEffect env0 ''/tmp/doc_base.png'' ''doc'' ''/tmp'' double_003 1 1 world0
         = Inr (''/tmp/doc_rb.png'', s')
     \<and> trace s' =
         [Exec [Lit ''identify'', Lit ''-format'', Lit ''%w %h'', File ''/tmp/doc_base.png''],
          WriteFile mvg (Script ([PushContext, Viewbox 10 10, Fill ''white'', StrokeNone]
                                  @ rects @ [PopContext])),
          Exec [File ''/tmp/doc_base.png'', Lit ''-draw'', At mvg, File ''/tmp/doc_rb.png''],
          Unlink ''/tmp/doc_base.png'', Unlink mvg]
     \<and> list_all is_rectangle rects
     \<and> length rects = 3)
   \<and> (\<exists>s'. applyDropoutEffect env0 ''/tmp/doc_base.png'' ''doc'' ''/tmp'' 0 1 1 world0
               = Inr (''/tmp/doc_base.png'', s')
          \<and> files s' = files world0
          \<and> (trace s' = []
               \<or> trace s' = [Exec [Lit ''identify'', Lit ''-format'', Lit ''%w %h'', File ''/tmp/doc_base.png'']]))"
proof -
  have three: "(3::int) = \<lfloor>fdiv (fmul (fmul (real (10::nat)) (real (10::nat))) double_003)
                     (fmul (real_of_int (blockSize_of 1)) (real_of_int (blockSize_of 1)))\<rfloor>"
    by (simp add: blockSize_of_def double_003_def double_eval)
  have none: "(0::int) = \<lfloor>fdiv (fmul (fmul (real (10::nat)) (real (10::nat))) 0)
                     (fmul (real_of_int (blockSize_of 1)) (real_of_int (blockSize_of 1)))\<rfloor>"
    by (simp add: blockSize_of_def double_eval)
  have script: "\<forall>r. path_join (os_tmpdir env0) (''mvg_dropout_'' @ stamp env0 r @ ''.mvg'') \<noteq> ''/tmp/doc_base.png''"
    by (simp add: env0_def path_join_def)
  have tr: "trace world0 = []"
    by (simp add: world0_def)
  from dropout_block_count [OF page0 three, of 1 env0 "''doc''" "''/tmp''"]
       dropout_block_count [OF page0 none, of 1 env0 "''doc''" "''/tmp''"]
       script
  show ?thesis
    by (simp add: tr path_join_def)
qed

subsection \<open>White stripes\<close>

lemma overlay_of_alpha: "i < length finalMask \<Longrightarrow> overlay_of finalMask ! (4 * i + 3) = finalMask ! i"
proof (induction finalMask arbitrary: i)
  case Nil
  then show ?case by simp
next
  case (Cons v vs)
  show ?case
  proof (cases i)
    case 0
    then show ?thesis by (simp add: overlay_of_def)
  next
    case (Suc j)
    with Cons.prems have "j < length vs" by simp
    from Cons.IH [OF this] show ?thesis
      using Suc by (simp add: overlay_of_def add.commute)
  qed
qed

lemma overlay_of_length: "length (overlay_of finalMask) = 4 * length finalMask"
  by (induction finalMask) (simp_all add: overlay_of_def)

lemma noise_raw_keeps [simp]:
  "trace (snd (noise_raw e n distort s)) = trace s"
  "files (snd (noise_raw e n distort s)) = files s"
  by (induction n arbitrary: s) (simp_all add: Let_def split_beta)

lemma stripe_loop_keeps:
  "stripe_loop e n width height tmin tmax smin smax dir offset buf s = Inr (buf', s')
   \<Longrightarrow> trace s' = trace s \<and> files s' = files s"
proof (induction n arbitrary: s offset buf)
  case 0
  then show ?case by simp
next
  case (Suc n)
  show ?case
    using Suc.prems
    apply (simp only: stripe_loop.simps Let_def split_beta and_then_eq_Inr)
    apply (elim exE conjE)
    apply (drule Suc.IH)
    apply simp
    done
qed

lemma stripesW_unfold:
  assumes "files s curPath = Some (Image width height)"
      and "applyStripesWEffect e curPath name tmpdir batchPerc amount thickMin thickMax spacingMin
             spacingMax dir noiseSize distort s = Inr (p, s')"
  shows "\<exists>stripeMask s1.
           stripe_loop e (nat amount) width height thickMin thickMax spacingMin spacingMax dir
             \<lfloor>fmul (rnd e (draws s)) (real (if dir = ''horizontal'' then height else width))\<rfloor>
             (replicate (width * height) 0)
             (s\<lparr>trace := trace s @ [Metadata curPath], draws := Suc (draws s)\<rparr>)
             = Inr (stripeMask, s1)
         \<and> p = curPath
         \<and> files s' = files s
         \<and> trace s' = trace s @
             [Metadata curPath,
              Composite curPath
                (overlay_of (final_mask (width * height) stripeMask
                   (noise_mask (width * height)
                      (sharp_blur e width height (if noiseSize > 1 then noiseSize / 2 else 1)
                         (fst (noise_raw e (width * height) distort s1)))))),
              WriteFile curPath (Image width height)]"
proof -
  from assms obtain stripeMask s1 where
    loop: "stripe_loop e (nat amount) width height thickMin thickMax spacingMin spacingMax dir
             \<lfloor>fmul (rnd e (draws s)) (real (if dir = ''horizontal'' then height else width))\<rfloor>
             (replicate (width * height) 0)
             (s\<lparr>trace := trace s @ [Metadata curPath], draws := Suc (draws s)\<rparr>)
             = Inr (stripeMask, s1)"
    and res: "p = curPath"
      "s' = (snd (noise_raw e (width * height) distort s1))
              \<lparr>files := (files (snd (noise_raw e (width * height) distort s1)))
                           (curPath \<mapsto> Image width height),
               trace := trace (snd (noise_raw e (width * height) distort s1)) @
                 [Composite curPath
                    (overlay_of (final_mask (width * height) stripeMask
                       (noise_mask (width * height)
                          (sharp_blur e width height (if noiseSize > 1 then noiseSize / 2 else 1)
                             (fst (noise_raw e (width * height) distort s1)))))),
                  WriteFile curPath (Image width height)]\<rparr>"
    by (auto simp add: applyStripesWEffect_def stripesW_masks_def random_def Let_def split_beta
        and_then_eq_Inr)
  from stripe_loop_keeps [OF loop]
  have k: "trace s1 = trace s @ [Metadata curPath]" "files s1 = files s"
    by simp_all
  have f: "files s' = files s"
    using assms(1) by (auto simp add: res(2) k)
  have t: "trace s' = trace s @
             [Metadata curPath,
              Composite curPath
                (overlay_of (final_mask (width * height) stripeMask
                   (noise_mask (width * height)
                      (sharp_blur e width height (if noiseSize > 1 then noiseSize / 2 else 1)
                         (fst (noise_raw e (width * height) distort s1)))))),
              WriteFile curPath (Image width height)]"
    by (simp add: res(2) k)
  from loop res(1) f t show ?thesis by blast
qed

lemma replicate_four: "replicate 4 x = [x, x, x, x]"
  by (simp add: numeral_eq_Suc)

lemma replicate_two: "replicate 2 x = [x, x]"
  by (simp add: numeral_eq_Suc)

lemma upt_four: "[0..<4] = [0, 1, 2, 3]"
  by (simp add: upt_rec)

lemma four: "(2::nat) * 2 = Suc (Suc (Suc (Suc 0)))"
  by simp

lemma page_2x2: "files world_2x2 ''/tmp/doc_base.png'' = Some (Image 2 2)"
  by (simp add: world_2x2_def)

lemma mix_loop:
  "stripe_loop env_mix (nat 1) 2 2 1 1 0 0 ''horizontal''
     \<lfloor>fmul (rnd env_mix (draws world_2x2)) (real (if ''horizontal'' = ''horizontal'' then 2 else (2::nat)))\<rfloor>
     (replicate (2 * 2) 0)
     (world_2x2\<lparr>trace := trace world_2x2 @ [Metadata ''/tmp/doc_base.png''], draws := Suc (draws world_2x2)\<rparr>)
   = Inr ([255, 255, 0, 0],
          world_2x2\<lparr>trace := [Metadata ''/tmp/doc_base.png''], draws := 3\<rparr>)"
  by (simp add: env_mix_def world_2x2_def random_def buf_fill_def replicate_four replicate_two)

lemma mix_noise:
  "noise_raw env_mix (2 * 2) (1 / 2) (world_2x2\<lparr>trace := [Metadata ''/tmp/doc_base.png''], draws := 3\<rparr>)
   = ([255, 0, 255, 0], world_2x2\<lparr>trace := [Metadata ''/tmp/doc_base.png''], draws := 7\<rparr>)"
  unfolding four by (simp add: env_mix_def world_2x2_def random_def)

lemma mix_mask:
  "noise_mask (2 * 2) (sharp_blur env_mix 2 2 (if (1::real) > 1 then 1 / 2 else 1) [255, 0, 255, 0])
   = [255, 0, 255, 0]"
  by (simp add: noise_mask_def upt_four env_mix_def)

lemma mix_run:
  "applyStripesWEffect env_mix ''/tmp/doc_base.png'' ''doc'' ''/tmp'' 1 1 1 1 0 0 ''horizontal'' 1 (1 / 2)
     world_2x2
   = Inr (''/tmp/doc_base.png'',
          world_2x2\<lparr>trace := [Metadata ''/tmp/doc_base.png'',
                               Composite ''/tmp/doc_base.png''
                                 [255, 255, 255, 255, 255, 255, 255, 0,
                                  255, 255, 255, 0, 255, 255, 255, 0],
                               WriteFile ''/tmp/doc_base.png'' (Image 2 2)],
                     draws := 7\<rparr>)"
proof -
  have m: "stripesW_masks env_mix 2 2 1 1 1 0 0 ''horizontal'' 1 (1 / 2)
             (world_2x2\<lparr>trace := trace world_2x2 @ [Metadata ''/tmp/doc_base.png'']\<rparr>)
           = Inr (([255, 255, 0, 0], [255, 0, 255, 0], [255, 0, 0, 0],
                   [255, 255, 255, 255, 255, 255, 255, 0, 255, 255, 255, 0, 255, 255, 255, 0]),
                  world_2x2\<lparr>trace := [Metadata ''/tmp/doc_base.png''], draws := 7\<rparr>)"
    unfolding stripesW_masks_def Let_def split_beta
    using mix_loop mix_noise mix_mask
    by (simp add: random_def world_2x2_def final_mask_def upt_four overlay_of_def)
  show ?thesis
    unfolding applyStripesWEffect_def using m
    by (simp add: page_2x2) (simp add: world_2x2_def)
qed

text \<open>
  C5. White stripes on a page of \<open>W\<close> by \<open>H\<close> pixels. A call of \<open>applyStripesWEffect\<close>
  that returns composites exactly one overlay over the page, of four bytes for each
  pixel. Let the stripe mask be the buffer the stripe loop leaves, and the noise mask
  the random buffer \<open>noiseRaw\<close> after the blur of sharp and the threshold loop of the
  source (255 where the blurred byte at that index is above 128, otherwise 0). Then for
  every pixel \<open>i\<close> the alpha byte of the composited overlay is non-zero exactly when the
  stripe mask and the noise mask both hold 255 at \<open>i\<close>.
\<close>

theorem stripesW_alpha_iff:
  assumes "files s curPath = Some (Image width height)"
      and "applyStripesWEffect e curPath name tmpdir batchPerc amount thickMin thickMax spacingMin
             spacingMax dir noiseSize distort s = Inr (p, s')"
  shows "\<exists>stripeMask s1 noiseRaw s2 blurred noiseMask overlay.
           stripe_loop e (nat amount) width height thickMin thickMax spacingMin spacingMax dir
             \<lfloor>fmul (rnd e (draws s)) (real (if dir = ''horizontal'' then height else width))\<rfloor>
             (replicate (width * height) 0)
             (s\<lparr>trace := trace s @ [Metadata curPath], draws := Suc (draws s)\<rparr>)
             = Inr (stripeMask, s1)
         \<and> noise_raw e (width * height) distort s1 = (noiseRaw, s2)
         \<and> blurred = sharp_blur e width height (if noiseSize > 1 then noiseSize / 2 else 1) noiseRaw
         \<and> noiseMask = noise_mask (width * height) blurred
         \<and> trace s' = trace s @
              [Metadata curPath, Composite curPath overlay, WriteFile curPath (Image width height)]
         \<and> length overlay = 4 * (width * height)
         \<and> (\<forall>i < width * height.
               (noiseMask ! i = 255) = (i < length blurred \<and> 128 < blurred ! i)
             \<and> (overlay ! (4 * i + 3) \<noteq> 0) = (stripeMask ! i = 255 \<and> noiseMask ! i = 255))"
proof -
  from stripesW_unfold [OF assms] obtain stripeMask s1 where
    loop: "stripe_loop e (nat amount) width height thickMin thickMax spacingMin spacingMax dir
             \<lfloor>fmul (rnd e (draws s)) (real (if dir = ''horizontal'' then height else width))\<rfloor>
             (replicate (width * height) 0)
             (s\<lparr>trace := trace s @ [Metadata curPath], draws := Suc (draws s)\<rparr>)
             = Inr (stripeMask, s1)"
    and t: "trace s' = trace s @
             [Metadata curPath,
              Composite curPath
                (overlay_of (final_mask (width * height) stripeMask
                   (noise_mask (width * height)
                      (sharp_blur e width height (if noiseSize > 1 then noiseSize / 2 else 1)
                         (fst (noise_raw e (width * height) distort s1)))))),
              WriteFile curPath (Image width height)]"
    by blast
  define noiseRaw where "noiseRaw = fst (noise_raw e (width * height) distort s1)"
  define s2 where "s2 = snd (noise_raw e (width * height) distort s1)"
  define blurred where
    "blurred = sharp_blur e width height (if noiseSize > 1 then noiseSize / 2 else 1) noiseRaw"
  define noiseMask where "noiseMask = noise_mask (width * height) blurred"
  define finalMask where "finalMask = final_mask (width * height) stripeMask noiseMask"
  define overlay where "overlay = overlay_of finalMask"
  have raw: "noise_raw e (width * height) distort s1 = (noiseRaw, s2)"
    by (simp add: noiseRaw_def s2_def)
  have t': "trace s' = trace s @
              [Metadata curPath, Composite curPath overlay, WriteFile curPath (Image width height)]"
    unfolding overlay_def finalMask_def noiseMask_def blurred_def noiseRaw_def by (rule t)
  have len: "length finalMask = width * height"
    by (simp add: finalMask_def final_mask_def)
  have lov: "length overlay = 4 * (width * height)"
    by (simp add: overlay_def overlay_of_length len)
  have px: "(noiseMask ! i = 255) = (i < length blurred \<and> 128 < blurred ! i)
          \<and> (overlay ! (4 * i + 3) \<noteq> 0) = (stripeMask ! i = 255 \<and> noiseMask ! i = 255)"
    if i: "i < width * height" for i
  proof -
    have n: "noiseMask ! i = (if i < length blurred \<and> 128 < blurred ! i then 255 else 0)"
      using i by (simp add: noiseMask_def noise_mask_def)
    have "overlay ! (4 * i + 3) = finalMask ! i"
      using i len by (simp add: overlay_def overlay_of_alpha)
    also have "\<dots> = (if stripeMask ! i = 255 \<and> noiseMask ! i = 255 then 255 else 0)"
      using i by (simp add: finalMask_def final_mask_def)
    finally have o: "(overlay ! (4 * i + 3) \<noteq> 0) = (stripeMask ! i = 255 \<and> noiseMask ! i = 255)"
      by simp
    from n o show ?thesis by simp
  qed
  from loop raw blurred_def noiseMask_def t' lov px show ?thesis
    by blast
qed

text \<open>
  On a page of two by two pixels with one stripe on the first row and a noise that
  keeps the first and the third pixel, only the first pixel has both masks on, and
  only there is the alpha byte of the overlay non-zero.
\<close>

theorem stripesW_alpha_iff_witness:
  "\<exists>stripeMask s1 noiseRaw s2 noiseMask overlay s'.
      applyStripesWEffect env_mix ''/tmp/doc_base.png'' ''doc'' ''/tmp'' 1 1 1 1 0 0 ''horizontal'' 1 (1 / 2)
        world_2x2 = Inr (''/tmp/doc_base.png'', s')
    \<and> stripe_loop env_mix 1 2 2 1 1 0 0 ''horizontal'' 0 [0, 0, 0, 0]
        (world_2x2\<lparr>trace := [Metadata ''/tmp/doc_base.png''], draws := 1\<rparr>) = Inr (stripeMask, s1)
    \<and> noise_raw env_mix 4 (1 / 2) s1 = (noiseRaw, s2)
    \<and> noiseMask = noise_mask 4 (sharp_blur env_mix 2 2 1 noiseRaw)
    \<and> trace s' = [Metadata ''/tmp/doc_base.png'', Composite ''/tmp/doc_base.png'' overlay,
                   WriteFile ''/tmp/doc_base.png'' (Image 2 2)]
    \<and> length overlay = 16
    \<and> stripeMask = [255, 255, 0, 0]
    \<and> noiseMask = [255, 0, 255, 0]
    \<and> overlay ! 3 \<noteq> 0 \<and> overlay ! 7 = 0 \<and> overlay ! 11 = 0 \<and> overlay ! 15 = 0"
proof -
  from stripesW_alpha_iff [OF page_2x2 mix_run]
  obtain stripeMask s1 noiseRaw s2 blurred noiseMask overlay where
    loop: "stripe_loop env_mix (nat 1) 2 2 1 1 0 0 ''horizontal''
             \<lfloor>fmul (rnd env_mix (draws world_2x2)) (real (if ''horizontal'' = ''horizontal'' then 2 else (2::nat)))\<rfloor>
             (replicate (2 * 2) 0)
             (world_2x2\<lparr>trace := trace world_2x2 @ [Metadata ''/tmp/doc_base.png''], draws := Suc (draws world_2x2)\<rparr>)
           = Inr (stripeMask, s1)"
    and raw: "noise_raw env_mix (2 * 2) (1 / 2) s1 = (noiseRaw, s2)"
    and blur: "blurred = sharp_blur env_mix 2 2 (if (1::real) > 1 then 1 / 2 else 1) noiseRaw"
    and mask: "noiseMask = noise_mask (2 * 2) blurred"
    and tr: "trace (world_2x2\<lparr>trace := [Metadata ''/tmp/doc_base.png'',
                               Composite ''/tmp/doc_base.png''
                                 [255, 255, 255, 255, 255, 255, 255, 0,
                                  255, 255, 255, 0, 255, 255, 255, 0],
                               WriteFile ''/tmp/doc_base.png'' (Image 2 2)],
                     draws := 7\<rparr>)
             = trace world_2x2 @ [Metadata ''/tmp/doc_base.png'', Composite ''/tmp/doc_base.png'' overlay,
                   WriteFile ''/tmp/doc_base.png'' (Image 2 2)]"
    and len: "length overlay = 4 * (2 * 2)"
    and px: "\<forall>i < 2 * 2. (noiseMask ! i = 255) = (i < length blurred \<and> 128 < blurred ! i)
               \<and> (overlay ! (4 * i + 3) \<noteq> 0) = (stripeMask ! i = 255 \<and> noiseMask ! i = 255)"
    by blast
  from loop have sm: "stripeMask = [255, 255, 0, 0]"
    and s1: "s1 = world_2x2\<lparr>trace := [Metadata ''/tmp/doc_base.png''], draws := 3\<rparr>"
    unfolding mix_loop by simp_all
  from raw have nr: "noiseRaw = [255, 0, 255, 0]"
    unfolding s1 mix_noise by simp
  have nm: "noiseMask = [255, 0, 255, 0]"
    unfolding mask blur nr by (rule mix_mask)
  from px [rule_format, of 0] have p0: "(overlay ! 3 \<noteq> 0) = (stripeMask ! 0 = 255 \<and> noiseMask ! 0 = 255)"
    by simp
  from px [rule_format, of 1] have p1: "(overlay ! 7 \<noteq> 0) = (stripeMask ! 1 = 255 \<and> noiseMask ! 1 = 255)"
    by simp
  from px [rule_format, of 2] have p2: "(overlay ! 11 \<noteq> 0) = (stripeMask ! 2 = 255 \<and> noiseMask ! 2 = 255)"
    by simp
  from px [rule_format, of 3] have p3: "(overlay ! 15 \<noteq> 0) = (stripeMask ! 3 = 255 \<and> noiseMask ! 3 = 255)"
    by simp
  have alpha: "overlay ! 3 \<noteq> 0 \<and> overlay ! 7 = 0 \<and> overlay ! 11 = 0 \<and> overlay ! 15 = 0"
    using p0 p1 p2 p3 by (simp add: sm nm)
  have loop': "stripe_loop env_mix 1 2 2 1 1 0 0 ''horizontal'' 0 [0, 0, 0, 0]
        (world_2x2\<lparr>trace := [Metadata ''/tmp/doc_base.png''], draws := 1\<rparr>) = Inr (stripeMask, s1)"
    using loop by (simp add: env_mix_def world_2x2_def replicate_four)
  have raw': "noise_raw env_mix 4 (1 / 2) s1 = (noiseRaw, s2)"
    using raw by simp
  have mask': "noiseMask = noise_mask 4 (sharp_blur env_mix 2 2 1 noiseRaw)"
    using mask blur by simp
  have tr': "trace (world_2x2\<lparr>trace := [Metadata ''/tmp/doc_base.png'',
                               Composite ''/tmp/doc_base.png''
                                 [255, 255, 255, 255, 255, 255, 255, 0,
                                  255, 255, 255, 0, 255, 255, 255, 0],
                               WriteFile ''/tmp/doc_base.png'' (Image 2 2)],
                     draws := 7\<rparr>)
             = [Metadata ''/tmp/doc_base.png'', Composite ''/tmp/doc_base.png'' overlay,
                   WriteFile ''/tmp/doc_base.png'' (Image 2 2)]"
    using tr by (simp add: world_2x2_def)
  have len': "length overlay = 16"
    using len by simp
  from mix_run loop' raw' mask' tr' len' sm nm alpha show ?thesis
    by blast
qed

subsection \<open>Tile shift\<close>

lemma randInt_lower:
  assumes "0 \<le> rnd e (draws s)" and "lo \<le> hi + 1"
  shows "lo \<le> fst (randInt e lo hi s)"
proof -
  have "0 \<le> fmul (rnd e (draws s)) (real_of_int (hi - lo + 1))"
    using assms by (intro fmul_nonneg) simp_all
  then have "0 \<le> \<lfloor>fmul (rnd e (draws s)) (real_of_int (hi - lo + 1))\<rfloor>"
    by simp
  then show ?thesis
    by (simp add: randInt_def random_def)
qed

lemma randInt_draws [simp]: "draws (snd (randInt e lo hi s)) = Suc (draws s)"
  by (simp add: randInt_def random_def)

lemma half_201: "\<lfloor>fmul (1 / 2) 201\<rfloor> = 100"
  and half_801: "\<lfloor>fmul (1 / 2) 801\<rfloor> = 400"
  and half_2: "\<lfloor>fmul (1 / 2) 2\<rfloor> = 1"
  and half_m99: "\<lfloor>fmul (1 / 2) (- 99)\<rfloor> = - 50"
  and half_1: "\<lfloor>fmul (1 / 2) 1\<rfloor> = 0"
  and half_m1: "\<lfloor>fmul (1 / 2) (- 1)\<rfloor> = - 1"
  by (simp_all add: double_eval)

text \<open>
  C8, as the code has it. The clamp acts on the right and on the bottom edge only. For
  every tile, \<open>px + ts \<le> W\<close> and \<open>py + ts \<le> H\<close> hold whatever the parameters and the
  draws are. \<open>0 \<le> px\<close> and \<open>0 \<le> py\<close> hold for every tile that fits the canvas
  (\<open>ts \<le> W\<close> and \<open>ts \<le> H\<close>) when the base offsets and the offset variation are not
  negative; of the draws this needs only that they are not negative, as those of
  \<open>Math.random()\<close> are.
\<close>

theorem tile_paste_in_canvas:
  fixes tilesSize tilesVariation tilesOffsetX tilesOffsetY offsetVariation :: int
  assumes "tile_place e w h tilesSize tilesVariation tilesOffsetX tilesOffsetY offsetVariation s
             = ((ts, x, y, px, py), s')"
  shows "px + ts \<le> int w \<and> py + ts \<le> int h
       \<and> ((\<forall>n. 0 \<le> rnd e n) \<and> ts \<le> int w \<and> ts \<le> int h
            \<and> 0 \<le> tilesOffsetX \<and> 0 \<le> tilesOffsetY \<and> 0 \<le> offsetVariation
            \<longrightarrow> 0 \<le> px \<and> 0 \<le> py)"
proof -
  define extra where "extra = fst (randInt e 0 tilesVariation s)"
  define s1 where "s1 = snd (randInt e 0 tilesVariation s)"
  define x' where "x' = fst (randInt e 0 (int w - (tilesSize + extra)) s1)"
  define s2 where "s2 = snd (randInt e 0 (int w - (tilesSize + extra)) s1)"
  define y' where "y' = fst (randInt e 0 (int h - (tilesSize + extra)) s2)"
  define s3 where "s3 = snd (randInt e 0 (int h - (tilesSize + extra)) s2)"
  define jx where "jx = fst (randInt e 0 offsetVariation s3)"
  define s4 where "s4 = snd (randInt e 0 offsetVariation s3)"
  define jy where "jy = fst (randInt e 0 offsetVariation s4)"
  have run: "tile_place e w h tilesSize tilesVariation tilesOffsetX tilesOffsetY offsetVariation s
      = ((tilesSize + extra, x', y',
          (if x' + (tilesOffsetX + jx) + (tilesSize + extra) > int w
           then int w - (tilesSize + extra) else x' + (tilesOffsetX + jx)),
          (if y' + (tilesOffsetY + jy) + (tilesSize + extra) > int h
           then int h - (tilesSize + extra) else y' + (tilesOffsetY + jy))),
         snd (randInt e 0 offsetVariation s4))"
    unfolding extra_def s1_def x'_def s2_def y'_def s3_def jx_def s4_def jy_def
    by (simp add: tile_place_def Let_def split_beta)
  from assms [unfolded run] have ts: "ts = tilesSize + extra"
    and px: "px = (if x' + (tilesOffsetX + jx) + ts > int w then int w - ts
                   else x' + (tilesOffsetX + jx))"
    and py: "py = (if y' + (tilesOffsetY + jy) + ts > int h then int h - ts
                   else y' + (tilesOffsetY + jy))"
    by auto
  have upper: "px + ts \<le> int w \<and> py + ts \<le> int h"
    by (simp add: px py)
  have lower: "0 \<le> px \<and> 0 \<le> py"
    if a: "(\<forall>n. 0 \<le> rnd e n) \<and> ts \<le> int w \<and> ts \<le> int h
            \<and> 0 \<le> tilesOffsetX \<and> 0 \<le> tilesOffsetY \<and> 0 \<le> offsetVariation"
  proof -
    from a have r: "\<And>t. 0 \<le> rnd e (draws t)"
      by simp
    have x: "0 \<le> x'"
      unfolding x'_def using a ts by (intro randInt_lower r) simp
    have y: "0 \<le> y'"
      unfolding y'_def using a ts by (intro randInt_lower r) simp
    have jx: "0 \<le> jx"
      unfolding jx_def using a by (intro randInt_lower r) simp
    have jy: "0 \<le> jy"
      unfolding jy_def using a by (intro randInt_lower r) simp
    show ?thesis
      using x y jx jy a by (simp add: px py)
  qed
  from upper lower show ?thesis by blast
qed

text \<open>
  On a canvas of 1000 by 1000 with the tile settings of the shipped configuration and
  every draw equal to one half, the tile is 200 wide, cut at \<open>(400, 400)\<close> and pasted at
  \<open>(402, 402)\<close>.
\<close>

theorem tile_paste_in_canvas_witness:
  "tile_place env_half 1000 1000 100 200 1 1 1 world0
     = ((200, 400, 400, 402, 402), world0\<lparr>draws := 5\<rparr>)
   \<and> paste_in_canvas 1000 1000 (200, 400, 400, 402, 402)"
proof -
  have run: "tile_place env_half 1000 1000 100 200 1 1 1 world0
               = ((200, 400, 400, 402, 402), world0\<lparr>draws := 5\<rparr>)"
    by (simp add: tile_place_def randInt_def random_def env_half_def world0_def Let_def
        half_201 half_801 half_2)
  have r: "\<forall>n. 0 \<le> rnd env_half n"
    by (simp add: env_half_def)
  show ?thesis
    using tile_paste_in_canvas [OF run] r by (simp add: run)
qed

text \<open>
  C8 as stated fails, in three ways. Where the tile is larger than the canvas: on a
  canvas of 100 by 100, with the tile settings of the shipped configuration and every
  draw equal to one half, the tile is 200 wide and is pasted at \<open>(-100, -100)\<close>. Where
  the base offset is negative: a tile of 10 on the same canvas with offsets of \<open>-5\<close> and
  every draw equal to zero is pasted at \<open>(-5, -5)\<close>. Where the offset variation is
  negative: a tile of 10 on a canvas of 10 by 10 with an offset variation of \<open>-2\<close> and
  every draw equal to one half is pasted at \<open>(-1, -1)\<close>.
\<close>

theorem tile_paste_counterexample:
  "fst (tile_place env_half 100 100 100 200 1 1 1 world0) = (200, - 50, - 50, - 100, - 100)
   \<and> \<not> paste_in_canvas 100 100 (fst (tile_place env_half 100 100 100 200 1 1 1 world0))
   \<and> fst (tile_place env0 100 100 10 0 (- 5) (- 5) 0 world0) = (10, 0, 0, - 5, - 5)
   \<and> \<not> paste_in_canvas 100 100 (fst (tile_place env0 100 100 10 0 (- 5) (- 5) 0 world0))
   \<and> fst (tile_place env_half 10 10 10 0 0 0 (- 2) world0) = (10, 0, 0, - 1, - 1)
   \<and> \<not> paste_in_canvas 10 10 (fst (tile_place env_half 10 10 10 0 0 0 (- 2) world0))"
proof -
  have a: "fst (tile_place env_half 100 100 100 200 1 1 1 world0) = (200, - 50, - 50, - 100, - 100)"
    by (simp add: tile_place_def randInt_def random_def env_half_def world0_def Let_def
        half_201 half_m99 half_2)
  have b: "fst (tile_place env0 100 100 10 0 (- 5) (- 5) 0 world0) = (10, 0, 0, - 5, - 5)"
    by (simp add: tile_place_def randInt_def random_def env0_def world0_def Let_def)
  have c: "fst (tile_place env_half 10 10 10 0 0 0 (- 2) world0) = (10, 0, 0, - 1, - 1)"
    by (simp add: tile_place_def randInt_def random_def env_half_def world0_def Let_def
        half_1 half_m1)
  show ?thesis
    by (simp add: a b c)
qed

subsection \<open>The stage gates\<close>

lemma dbgLog_off [simp]: "\<not> currentDebug g \<Longrightarrow> dbgLog g stage s = s"
  by (simp add: dbgLog_def)

lemma dbgSnap_off [simp]: "\<not> currentDebug g \<Longrightarrow> dbgSnap c g stage p name s = Inr s"
  by (simp add: dbgSnap_def)

text \<open>
  C1, as the code has it. During the debug run a stage whose key is in the exclusion
  list is skipped as a whole: its transform does not run, it logs nothing and takes no
  snapshot, and the page and the world stay as they are. (The header of faxSim.js:
  a list of effect keys to skip in debug.)
\<close>

theorem excluded_stage_skipped:
  "(''warp'' \<in> set (debugSkip c) \<longrightarrow> stage_warp e c g True name cur s = Inr (cur, s))
 \<and> (''rotate'' \<in> set (debugSkip c) \<longrightarrow> stage_rotate e c g True name cur s = Inr (cur, s))
 \<and> (''rotatemirror'' \<in> set (debugSkip c) \<longrightarrow> stage_mirror e c g True name cur s = Inr s)
 \<and> (''stripesw'' \<in> set (debugSkip c) \<longrightarrow> stage_stripesW e c g True name cur s = Inr (cur, s))
 \<and> (''alpha'' \<in> set (debugSkip c) \<longrightarrow> stage_alpha c g True name cur s = Inr s)
 \<and> (''gray'' \<in> set (debugSkip c) \<longrightarrow> stage_gray c g True name cur s = Inr s)
 \<and> (''blur'' \<in> set (debugSkip c) \<longrightarrow> stage_blur e c g True name cur s = Inr s)
 \<and> (''stripes'' \<in> set (debugSkip c) \<longrightarrow> stage_stripes e c g True name cur s = Inr (cur, s))
 \<and> (''rasterization'' \<in> set (debugSkip c) \<longrightarrow> stage_rasterization c g True name cur s = Inr s)
 \<and> (''dither'' \<in> set (debugSkip c) \<longrightarrow> stage_dither c g True name cur s = Inr s)
 \<and> (''noisew'' \<in> set (debugSkip c) \<longrightarrow> stage_noiseW e c g True name cur s = Inr (cur, s))
 \<and> (''rastereffect'' \<in> set (debugSkip c) \<longrightarrow> stage_rasterEffect e c g True name cur s = Inr (cur, s))
 \<and> (''finalthreshold'' \<in> set (debugSkip c) \<longrightarrow> stage_finalThreshold c g True name cur s = Inr s)
 \<and> (''dropout'' \<in> set (debugSkip c) \<longrightarrow> stage_dropout e c g True name cur s = Inr (cur, s))
 \<and> (''tileshift'' \<in> set (debugSkip c) \<longrightarrow> stage_tileshift e c g True name cur s = Inr (cur, s))"
proof (intro conjI impI)
  show "stage_warp e c g True name cur s = Inr (cur, s)" if "''warp'' \<in> set (debugSkip c)"
    using that by (simp add: stage_warp_def stage_on_def)
  show "stage_rotate e c g True name cur s = Inr (cur, s)" if "''rotate'' \<in> set (debugSkip c)"
    using that by (simp add: stage_rotate_def stage_on_def)
  show "stage_mirror e c g True name cur s = Inr s" if "''rotatemirror'' \<in> set (debugSkip c)"
    using that by (simp add: stage_mirror_def stage_on_def)
  show "stage_stripesW e c g True name cur s = Inr (cur, s)" if "''stripesw'' \<in> set (debugSkip c)"
    using that by (simp add: stage_stripesW_def stage_on_def)
  show "stage_alpha c g True name cur s = Inr s" if "''alpha'' \<in> set (debugSkip c)"
    using that by (simp add: stage_alpha_def stage_inplace_def stage_on_def)
  show "stage_gray c g True name cur s = Inr s" if "''gray'' \<in> set (debugSkip c)"
    using that by (simp add: stage_gray_def stage_inplace_def stage_on_def)
  show "stage_blur e c g True name cur s = Inr s" if "''blur'' \<in> set (debugSkip c)"
    using that by (simp add: stage_blur_def stage_on_def)
  show "stage_stripes e c g True name cur s = Inr (cur, s)" if "''stripes'' \<in> set (debugSkip c)"
    using that by (simp add: stage_stripes_def stage_on_def)
  show "stage_rasterization c g True name cur s = Inr s" if "''rasterization'' \<in> set (debugSkip c)"
    using that by (simp add: stage_rasterization_def stage_inplace_def stage_on_def)
  show "stage_dither c g True name cur s = Inr s" if "''dither'' \<in> set (debugSkip c)"
    using that by (simp add: stage_dither_def stage_inplace_def stage_on_def)
  show "stage_noiseW e c g True name cur s = Inr (cur, s)" if "''noisew'' \<in> set (debugSkip c)"
    using that by (simp add: stage_noiseW_def stage_on_def)
  show "stage_rasterEffect e c g True name cur s = Inr (cur, s)" if "''rastereffect'' \<in> set (debugSkip c)"
    using that by (simp add: stage_rasterEffect_def stage_on_def)
  show "stage_finalThreshold c g True name cur s = Inr s" if "''finalthreshold'' \<in> set (debugSkip c)"
    using that by (simp add: stage_finalThreshold_def stage_inplace_def stage_on_def)
  show "stage_dropout e c g True name cur s = Inr (cur, s)" if "''dropout'' \<in> set (debugSkip c)"
    using that by (simp add: stage_dropout_def stage_on_def)
  show "stage_tileshift e c g True name cur s = Inr (cur, s)" if "''tileshift'' \<in> set (debugSkip c)"
    using that by (simp add: stage_tileshift_def stage_on_def)
qed

theorem excluded_stage_skipped_witness:
  "stage_warp env0 statics_all globals_debug True ''doc'' ''/tmp/doc_base.png'' world0
     = Inr (''/tmp/doc_base.png'', world0)
 \<and> stage_rotate env0 statics_all globals_debug True ''doc'' ''/tmp/doc_base.png'' world0
     = Inr (''/tmp/doc_base.png'', world0)
 \<and> stage_mirror env0 statics_all globals_debug True ''doc'' ''/tmp/doc_base.png'' world0 = Inr world0
 \<and> stage_stripesW env0 statics_all globals_debug True ''doc'' ''/tmp/doc_base.png'' world0
     = Inr (''/tmp/doc_base.png'', world0)
 \<and> stage_alpha statics_all globals_debug True ''doc'' ''/tmp/doc_base.png'' world0 = Inr world0
 \<and> stage_gray statics_all globals_debug True ''doc'' ''/tmp/doc_base.png'' world0 = Inr world0
 \<and> stage_blur env0 statics_all globals_debug True ''doc'' ''/tmp/doc_base.png'' world0 = Inr world0
 \<and> stage_stripes env0 statics_all globals_debug True ''doc'' ''/tmp/doc_base.png'' world0
     = Inr (''/tmp/doc_base.png'', world0)
 \<and> stage_rasterization statics_all globals_debug True ''doc'' ''/tmp/doc_base.png'' world0 = Inr world0
 \<and> stage_dither statics_all globals_debug True ''doc'' ''/tmp/doc_base.png'' world0 = Inr world0
 \<and> stage_noiseW env0 statics_all globals_debug True ''doc'' ''/tmp/doc_base.png'' world0
     = Inr (''/tmp/doc_base.png'', world0)
 \<and> stage_rasterEffect env0 statics_all globals_debug True ''doc'' ''/tmp/doc_base.png'' world0
     = Inr (''/tmp/doc_base.png'', world0)
 \<and> stage_finalThreshold statics_all globals_debug True ''doc'' ''/tmp/doc_base.png'' world0 = Inr world0
 \<and> stage_dropout env0 statics_all globals_debug True ''doc'' ''/tmp/doc_base.png'' world0
     = Inr (''/tmp/doc_base.png'', world0)
 \<and> stage_tileshift env0 statics_all globals_debug True ''doc'' ''/tmp/doc_base.png'' world0
     = Inr (''/tmp/doc_base.png'', world0)"
  using excluded_stage_skipped [of statics_all env0 globals_debug "''doc''" "''/tmp/doc_base.png''" world0]
  by (simp add: statics_all_def)

text \<open>
  C1 as stated fails: with the shipped configuration (rotate enabled, \<open>rotate\<close> in the
  exclusion list) the rotate stage of the debug run returns the page it was given and
  the world unchanged; the engine is not called.
\<close>

theorem excluded_stage_counterexample:
  "stage_rotate env0 statics0 globals_debug True ''doc'' ''/tmp/doc_base.png'' world0
     = Inr (''/tmp/doc_base.png'', world0)"
  by (simp add: stage_rotate_def stage_on_def statics0_def cfg0_def)

text \<open>
  C10. In a run without debug the rotate stage draws once and gates on
  \<open>rotateBatchPerc\<close>, then hands the same probability to \<open>applyRotateEffect\<close>, which
  draws again and gates again. For every probability strictly between 0 and 1 there
  is a random stream with values in \<open>[0, 1)\<close> on which the gate of the stage passes and
  the effect returns its input without any engine call: the stage goes on to the
  mirror with the page unrotated.
\<close>

theorem rotate_gated_twice:
  fixes c :: statics
  assumes "0 < p" and "p < 1" and "applyRotate (cfg c)" and "rotateBatchPerc (cfg c) = p"
      and "\<not> currentDebug g"
  shows "\<exists>r. (\<forall>n. 0 \<le> r n \<and> r n < 1)
           \<and> r (draws s) < p
           \<and> applyRotateEffect (e\<lparr>rnd := r\<rparr>) cur name (os_tmpdir e) True p
                (rotateMin (cfg c)) (rotateMax (cfg c)) (s\<lparr>draws := Suc (draws s)\<rparr>)
               = Inr (cur, s\<lparr>draws := Suc (Suc (draws s))\<rparr>)
           \<and> stage_rotate (e\<lparr>rnd := r\<rparr>) c g False name cur s
               = and_then (stage_mirror (e\<lparr>rnd := r\<rparr>) c g False name cur
                             (s\<lparr>draws := Suc (Suc (draws s))\<rparr>))
                   (\<lambda>s5. Inr (cur, s5))"
proof -
  define r where "r = (\<lambda>n. if n = draws s then 0 else (p + 1) / 2)"
  have valid: "\<forall>n. 0 \<le> r n \<and> r n < 1"
    using assms(1,2) by (simp add: r_def)
  have first: "r (draws s) < p"
    using assms(1) by (simp add: r_def)
  have second: "p < r (Suc (draws s))"
    using assms(2) by (simp add: r_def)
  have eff: "applyRotateEffect (e\<lparr>rnd := r\<rparr>) cur name (os_tmpdir e) True p
                (rotateMin (cfg c)) (rotateMax (cfg c)) (s\<lparr>draws := Suc (draws s)\<rparr>)
               = Inr (cur, s\<lparr>draws := Suc (Suc (draws s))\<rparr>)"
    using second by (simp add: rotate_skips)
  have stage: "stage_rotate (e\<lparr>rnd := r\<rparr>) c g False name cur s
               = and_then (stage_mirror (e\<lparr>rnd := r\<rparr>) c g False name cur
                             (s\<lparr>draws := Suc (Suc (draws s))\<rparr>))
                   (\<lambda>s5. Inr (cur, s5))"
    using assms first eff by (simp add: stage_rotate_def stage_on_def random_def)
  from valid first eff stage show ?thesis by blast
qed

theorem rotate_gated_twice_witness:
  "\<exists>r. (\<forall>n. 0 \<le> r n \<and> r n < 1)
      \<and> r (draws world0) < 1 / 2
      \<and> applyRotateEffect (env0\<lparr>rnd := r\<rparr>) ''/tmp/doc_base.png'' ''doc'' (os_tmpdir env0) True (1 / 2)
           (rotateMin (cfg statics_half)) (rotateMax (cfg statics_half))
           (world0\<lparr>draws := Suc (draws world0)\<rparr>)
          = Inr (''/tmp/doc_base.png'', world0\<lparr>draws := Suc (Suc (draws world0))\<rparr>)
      \<and> stage_rotate (env0\<lparr>rnd := r\<rparr>) statics_half globals_later False ''doc'' ''/tmp/doc_base.png'' world0
          = and_then (stage_mirror (env0\<lparr>rnd := r\<rparr>) statics_half globals_later False ''doc''
                        ''/tmp/doc_base.png'' (world0\<lparr>draws := Suc (Suc (draws world0))\<rparr>))
              (\<lambda>s5. Inr (''/tmp/doc_base.png'', s5))"
proof -
  have h: "(0::real) < 1 / 2" "(1::real) / 2 < 1" "applyRotate (cfg statics_half)"
    "rotateBatchPerc (cfg statics_half) = 1 / 2" "\<not> currentDebug globals_later"
    by (simp_all add: statics_half_def statics0_def cfg0_def globals_later_def)
  show ?thesis
    using rotate_gated_twice [OF h, of world0 env0 "''/tmp/doc_base.png''" "''doc''"] .
qed

subsection \<open>Debug output of the modules\<close>

lemma quiet_Inr [simp]: "quiet D (Inr x) st \<longleftrightarrow> debug_events (st x) = D"
  by (simp add: quiet_def)

lemma quiet_Inl [simp]: "quiet D (Inl err) st"
  by (simp add: quiet_def)

lemma quiet_bind_w:
  assumes "quiet D m (\<lambda>x. x)" and "\<And>x. debug_events x = D \<Longrightarrow> quiet D (f x) st"
  shows "quiet D (and_then m f) st"
  using assms by (cases m) (simp_all add: quiet_def)

lemma quiet_bind_p:
  assumes "quiet D m snd" and "\<And>x. debug_events (snd x) = D \<Longrightarrow> quiet D (f x) st"
  shows "quiet D (and_then m f) st"
  using assms by (cases m) (simp_all add: quiet_def)

lemmas quiet_bind = quiet_bind_w quiet_bind_p

lemma quiet_if:
  assumes "b \<Longrightarrow> quiet D m st" and "\<not> b \<Longrightarrow> quiet D n st"
  shows "quiet D (if b then m else n) st"
  using assms by simp

lemma debug_events_random [simp]: "debug_events (snd (random e s)) = debug_events s"
  by (simp add: random_def debug_events_def)

lemma debug_events_draws [simp]: "debug_events (s\<lparr>draws := n\<rparr>) = debug_events s"
  by (simp add: debug_events_def)

lemma quiet_magick: "debug_events s = D \<Longrightarrow> quiet D (magick args s) (\<lambda>x. x)"
  by (auto simp: magick_def debug_events_def split: prod.splits arg.splits option.splits)

lemma quiet_unlink: "debug_events s = D \<Longrightarrow> quiet D (unlinkSync p s) (\<lambda>x. x)"
  by (auto simp: unlinkSync_def debug_events_def)

lemma quiet_magick_size: "debug_events s = D \<Longrightarrow> quiet D (magick_size args p s) snd"
  by (auto simp: magick_size_def debug_events_def split: option.splits fsobj.splits)

lemma quiet_identify: "debug_events s = D \<Longrightarrow> quiet D (identify p s) snd"
  by (simp add: identify_def quiet_magick_size)

lemma quiet_magick_box: "debug_events s = D \<Longrightarrow> quiet D (magick_box e args p s) snd"
  by (auto simp: magick_box_def debug_events_def split: option.splits fsobj.splits)

lemmas quiet_prims = quiet_magick quiet_unlink quiet_magick_size quiet_identify quiet_magick_box

lemma quiet_rotate:
  "debug_events s = D \<Longrightarrow> quiet D (applyRotateEffect e cur name tmpDir en p lo hi s) snd"
  unfolding applyRotateEffect_def enabled_skip_def
  by (auto simp: Let_def split_beta intro!: quiet_bind quiet_prims)

lemma quiet_warp:
  "debug_events s = D \<Longrightarrow> quiet D (applyWarpEffect e cur name tmpDir en p off sc s) snd"
  unfolding applyWarpEffect_def enabled_skip_def
  by (auto simp: Let_def split_beta intro!: quiet_bind quiet_prims)


lemma debug_events_writeFileSync [simp]: "debug_events (writeFileSync p f s) = debug_events s"
  by (simp add: writeFileSync_def debug_events_def)

lemma debug_events_dropout_rects [simp]:
  "debug_events (snd (dropout_rects e n w h b s)) = debug_events s"
  by (induction n arbitrary: s) (simp_all add: Let_def split_beta)

lemma debug_events_speckle_points [simp]:
  "debug_events (snd (speckle_points e n w h s)) = debug_events s"
  by (induction n arbitrary: s) (simp_all add: Let_def split_beta)

lemma debug_events_randInt [simp]: "debug_events (snd (randInt e lo hi s)) = debug_events s"
  by (simp add: randInt_def split_beta)

lemma debug_events_tile_place [simp]:
  "debug_events (snd (tile_place e w h a b c d v s)) = debug_events s"
  by (simp add: tile_place_def Let_def split_beta)

lemma debug_events_tile_args [simp]:
  "debug_events (snd (tile_args e n w h a b c d v s)) = debug_events s"
  by (induction n arbitrary: s) (simp_all add: Let_def split_beta)

lemma createMVG_debug:
  "createMVG e w h amount sz s = Some (p, s') \<Longrightarrow> debug_events s' = debug_events s"
  by (auto simp: createMVG_def Let_def split_beta split: if_splits)

lemma createSpeckleMVG_debug:
  "createSpeckleMVG e w h density color s = Some (p, s') \<Longrightarrow> debug_events s' = debug_events s"
  by (auto simp: createSpeckleMVG_def Let_def split_beta split: if_splits)

lemma quiet_dropout:
  "debug_events s = D \<Longrightarrow> quiet D (applyDropoutEffect e cur name tmpDir amount sz p s) snd"
  unfolding applyDropoutEffect_def batch_skip_def
  by (auto simp: Let_def split_beta dest!: createMVG_debug split: option.splits
      intro!: quiet_bind quiet_prims)

lemma quiet_noiseW:
  "debug_events s = D \<Longrightarrow> quiet D (applyNoiseWEffect e cur name tmpDir p density s) snd"
  unfolding applyNoiseWEffect_def batch_skip_def
  by (auto simp: Let_def split_beta dest!: createSpeckleMVG_debug split: option.splits
      intro!: quiet_bind quiet_prims)

lemma quiet_raster:
  "debug_events s = D \<Longrightarrow> quiet D (applyRasterEffect e cur name tmpDir p rmap s) snd"
  unfolding applyRasterEffect_def batch_skip_def
  by (auto simp: Let_def split_beta intro!: quiet_bind quiet_prims)

lemma quiet_tileshift:
  "debug_events s = D \<Longrightarrow>
   quiet D (applyTileshiftEffect e cur name tmpDir p amt ts tv ox oy ov s) snd"
  unfolding applyTileshiftEffect_def batch_skip_def
  by (auto simp: Let_def split_beta intro!: quiet_bind quiet_prims)

lemma quiet_bind_pure:
  assumes "\<And>x. quiet D (f x) st"
  shows "quiet D (and_then m f) st"
  using assms by (cases m) simp_all

lemma quiet_stripe_loop:
  "debug_events s = D \<Longrightarrow>
   quiet D (stripe_loop e n width height tmin tmax smin smax dir offset buf s) snd"
proof (induction n arbitrary: s offset buf)
  case 0
  then show ?case by simp
next
  case (Suc n)
  show ?case
    unfolding stripe_loop.simps Let_def split_beta
    apply (rule quiet_bind_pure)
    apply (rule Suc.IH)
    using Suc.prems apply simp
    done
qed

lemma debug_events_noise_raw [simp]:
  "debug_events (snd (noise_raw e n distort s)) = debug_events s"
  by (induction n arbitrary: s) (simp_all add: Let_def split_beta)

lemma quiet_stripesW_masks:
  "debug_events s = D \<Longrightarrow>
   quiet D (stripesW_masks e width height amount tmin tmax smin smax dir noiseSize distort s) snd"
  unfolding stripesW_masks_def Let_def split_beta
  apply (rule quiet_bind_p)
   apply (rule quiet_stripe_loop)
   apply simp
  apply simp
  done


lemma quiet_stripesW:
  "debug_events s = D \<Longrightarrow>
   quiet D (applyStripesWEffect e cur name tmpDir p amount tmin tmax smin smax dir noiseSize distort s) snd"
proof (cases "files s cur")
  case None
  then show ?thesis by (simp add: applyStripesWEffect_def)
next
  case (Some f)
  assume D: "debug_events s = D"
  show ?thesis
  proof (cases f)
    case (Image w h)
    have pre: "debug_events (s\<lparr>trace := trace s @ [Metadata cur]\<rparr>) = D"
      using D by (simp add: debug_events_def)
    show ?thesis
      unfolding applyStripesWEffect_def
      using Some Image
      apply simp
      apply (rule quiet_bind_p)
       apply (rule quiet_stripesW_masks [OF pre])
      apply (simp add: split_beta debug_events_def)
      done
  next
    case (Script x)
    with Some show ?thesis by (simp add: applyStripesWEffect_def)
  qed
qed

lemma draw_nonzero_debug:
  "draw_nonzero e s = Some y \<Longrightarrow> debug_events (snd y) = debug_events s"
proof (induction rule: draw_nonzero.raw_induct [rotated, consumes 1])
  case (1 f e s y)
  then show ?case
    using draw_nonzero.simps [of e s]
    by (cases y) (auto simp: random_def split: if_splits)
qed

lemma randGaussian_debug:
  "randGaussian e s = Some y \<Longrightarrow> debug_events (snd y) = debug_events s"
  by (auto simp: randGaussian_def split: option.splits dest!: draw_nonzero_debug)

lemma quiet_stripe_point:
  "debug_events s = D \<Longrightarrow>
   quiet D (stripe_point e halfW halfH bw bh sigmaX sigmaY lineSpacing s) snd"
  unfolding stripe_point_def
  by (auto simp: Let_def split_beta random_def split: option.splits dest!: randGaussian_debug)

lemma quiet_stripe_points:
  "debug_events s = D \<Longrightarrow>
   quiet D (stripe_points e n halfW halfH bw bh sigmaX sigmaY lineSpacing s) snd"
proof (induction n arbitrary: s)
  case 0
  then show ?case by simp
next
  case (Suc n)
  show ?case
    unfolding stripe_points.simps
    apply (rule quiet_bind_p)
     apply (rule quiet_stripe_point [OF Suc.prems])
    apply (simp only: split_beta)
    apply (rule quiet_bind_p)
     apply (rule Suc.IH)
     apply assumption
    apply (simp add: split_beta)
    done
qed

lemma debug_events_randInt_excl [simp]:
  "debug_events (snd (randInt_excl e lo hi s)) = debug_events s"
  by (simp add: randInt_excl_def split_beta)

lemma quiet_stripe_cluster:
  "debug_events s = D \<Longrightarrow>
   quiet D (stripe_cluster e name tmpDir a w h aw ah density smear lmin lmax dir sp color composite s) snd"
  unfolding stripe_cluster_def Let_def split_beta
  by (rule quiet_bind_w quiet_bind_p quiet_if quiet_prims quiet_stripe_points
      | assumption | simp split: areaDir.splits)+

lemma quiet_stripe_clusters:
  "debug_events s = D \<Longrightarrow>
   quiet D (stripe_clusters e n name tmpDir a w h aw ah density smear lmin lmax dir sp color composite s) snd"
proof (induction n arbitrary: s a composite)
  case 0
  then show ?case by simp
next
  case (Suc n)
  show ?case
    unfolding stripe_clusters.simps
    apply (rule quiet_bind_p)
     apply (rule quiet_stripe_cluster [OF Suc.prems])
    apply (simp only: split_beta)
    apply (rule Suc.IH)
    apply assumption
    done
qed

lemma quiet_stripes:
  "debug_events s = D \<Longrightarrow>
   quiet D (applyStripesEffect e cur name tmpDir p n aw ah density smear lmin lmax dir sp color s) snd"
  unfolding applyStripesEffect_def batch_skip_def Let_def split_beta
  by (rule quiet_bind_w quiet_bind_p quiet_if quiet_prims quiet_stripe_clusters
      | assumption | simp)+

subsection \<open>The debug run\<close>

lemma quiet_stage_render:
  "\<not> currentDebug g \<Longrightarrow> debug_events s = D \<Longrightarrow> quiet D (stage_render c g name input cur s) (\<lambda>x. x)"
  unfolding stage_render_def Let_def
  by (rule quiet_bind_w quiet_prims | assumption | simp)+

lemma quiet_stage_inplace:
  "\<not> currentDebug g \<Longrightarrow> debug_events s = D \<Longrightarrow>
   quiet D (stage_inplace c g dbg enabled key stage ops name cur s) (\<lambda>x. x)"
  unfolding stage_inplace_def Let_def
  by (rule quiet_bind_w quiet_if quiet_prims | assumption | simp)+

lemma quiet_stage_warp:
  "\<not> currentDebug g \<Longrightarrow> debug_events s = D \<Longrightarrow> quiet D (stage_warp e c g dbg name cur s) snd"
  unfolding stage_warp_def Let_def split_beta
  by (rule quiet_bind_w quiet_bind_p quiet_if quiet_warp | assumption | simp)+

lemma quiet_stage_mirror:
  "\<not> currentDebug g \<Longrightarrow> debug_events s = D \<Longrightarrow> quiet D (stage_mirror e c g dbg name cur s) (\<lambda>x. x)"
  unfolding stage_mirror_def Let_def split_beta
  by (rule allI impI quiet_bind_w quiet_bind_p quiet_if quiet_prims | assumption | simp split: option.splits)+

lemma quiet_stage_rotate:
  "\<not> currentDebug g \<Longrightarrow> debug_events s = D \<Longrightarrow> quiet D (stage_rotate e c g dbg name cur s) snd"
  unfolding stage_rotate_def Let_def split_beta
  by (rule quiet_bind_w quiet_bind_p quiet_if quiet_rotate quiet_stage_mirror | assumption | simp)+

lemma quiet_stage_stripesW:
  "\<not> currentDebug g \<Longrightarrow> debug_events s = D \<Longrightarrow> quiet D (stage_stripesW e c g dbg name cur s) snd"
  unfolding stage_stripesW_def Let_def split_beta
  by (rule quiet_bind_w quiet_bind_p quiet_if quiet_stripesW | assumption | simp)+

lemma quiet_stage_blur:
  "\<not> currentDebug g \<Longrightarrow> debug_events s = D \<Longrightarrow> quiet D (stage_blur e c g dbg name cur s) (\<lambda>x. x)"
  unfolding stage_blur_def Let_def split_beta
  by (rule quiet_bind_w quiet_bind_p quiet_if quiet_prims | assumption | simp)+

lemma quiet_stage_stripes:
  "\<not> currentDebug g \<Longrightarrow> debug_events s = D \<Longrightarrow> quiet D (stage_stripes e c g dbg name cur s) snd"
  unfolding stage_stripes_def Let_def split_beta
  by (rule quiet_bind_w quiet_bind_p quiet_if quiet_stripes | assumption
      | simp split: option.splits bool.splits)+

lemma quiet_stage_noiseW:
  "\<not> currentDebug g \<Longrightarrow> debug_events s = D \<Longrightarrow> quiet D (stage_noiseW e c g dbg name cur s) snd"
  unfolding stage_noiseW_def Let_def split_beta
  by (rule quiet_bind_w quiet_bind_p quiet_if quiet_noiseW | assumption
      | simp split: option.splits bool.splits)+

lemma quiet_stage_rasterEffect:
  "\<not> currentDebug g \<Longrightarrow> debug_events s = D \<Longrightarrow> quiet D (stage_rasterEffect e c g dbg name cur s) snd"
  unfolding stage_rasterEffect_def Let_def split_beta
  by (rule quiet_bind_w quiet_bind_p quiet_if quiet_raster | assumption | simp)+

lemma quiet_stage_dropout:
  "\<not> currentDebug g \<Longrightarrow> debug_events s = D \<Longrightarrow> quiet D (stage_dropout e c g dbg name cur s) snd"
  unfolding stage_dropout_def Let_def split_beta
  by (rule quiet_bind_w quiet_bind_p quiet_if quiet_dropout | assumption
      | simp split: option.splits bool.splits)+

lemma quiet_stage_tileshift:
  "\<not> currentDebug g \<Longrightarrow> debug_events s = D \<Longrightarrow> quiet D (stage_tileshift e c g dbg name cur s) snd"
  unfolding stage_tileshift_def Let_def split_beta
  by (rule quiet_bind_w quiet_bind_p quiet_if quiet_tileshift | assumption
      | simp split: option.splits bool.splits)+

lemma quiet_stage_compress:
  "\<not> currentDebug g \<Longrightarrow> debug_events s = D \<Longrightarrow> quiet D (stage_compress c g name cur output s) (\<lambda>x. x)"
  unfolding stage_compress_def Let_def
  by (rule quiet_bind_w quiet_if quiet_prims | assumption | simp)+


lemma debug_events_console [simp]:
  "debug_events (s\<lparr>trace := trace s @ [Console msg]\<rparr>) = debug_events s"
  by (simp add: debug_events_def)

lemma quiet_doc_stages:
  "\<not> currentDebug g \<Longrightarrow> debug_events s = D \<Longrightarrow> quiet D (doc_stages e c g file s) (\<lambda>x. x)"
  unfolding doc_stages_def Let_def split_beta stage_alpha_def stage_gray_def
    stage_rasterization_def stage_dither_def stage_finalThreshold_def
  by (rule quiet_bind_w quiet_bind_p quiet_unlink
           quiet_stage_render quiet_stage_warp quiet_stage_rotate quiet_stage_stripesW
           quiet_stage_inplace quiet_stage_blur quiet_stage_stripes quiet_stage_noiseW
           quiet_stage_rasterEffect quiet_stage_dropout quiet_stage_tileshift quiet_stage_compress
      | assumption | simp)+

lemma processPdf_first:
  "processPdf e c file (globals0, s)
     = and_then (doc_stages e c \<lparr>isFirstPdf = True, currentDebug = DEBUG_PIPELINE c\<rparr> file s)
         (\<lambda>s1. Inr (\<lparr>isFirstPdf = False, currentDebug = False\<rparr>, s1))"
  by (simp add: processPdf_def globals0_def)

lemma processPdf_later:
  assumes "\<not> isFirstPdf g" and "\<not> currentDebug g"
      and "processPdf e c file (g, s) = Inr (g', s')"
  shows "debug_events s' = debug_events s \<and> g' = g"
proof -
  have g: "g\<lparr>currentDebug := False\<rparr> = g"
    using assms(2) by simp
  have q: "quiet (debug_events s) (doc_stages e c g file s) (\<lambda>x. x)"
    using assms(2) by (intro quiet_doc_stages) simp_all
  from assms(1,3) show ?thesis
    using q by (auto simp: processPdf_def g and_then_eq_Inr)
qed

lemma main_loop_later:
  assumes "\<not> isFirstPdf g" and "\<not> currentDebug g"
      and "main_loop e c rest (g, s) = Inr (g', s')"
  shows "debug_events s' = debug_events s \<and> g' = g"
  using assms(3)
proof (induction rest arbitrary: s)
  case Nil
  then show ?case by simp
next
  case (Cons entry rest)
  show ?case
  proof (cases "toLowerCase (extname entry) \<noteq> ''.pdf''")
    case True
    with Cons show ?thesis by simp
  next
    case False
    with Cons.prems obtain g1 s1 where
      p: "processPdf e c entry (g, s) = Inr (g1, s1)"
      and m: "main_loop e c rest (g1, s1) = Inr (g', s')"
      by (auto simp: and_then_eq_Inr)
    from processPdf_later [OF assms(1,2) p] have "debug_events s1 = debug_events s" and "g1 = g"
      by simp_all
    with Cons.IH [of s1] m show ?thesis by simp
  qed
qed

lemma main_loop_skip:
  "list_all (\<lambda>f. toLowerCase (extname f) \<noteq> ''.pdf'') pre \<Longrightarrow>
   main_loop e c (pre @ rest) gs = main_loop e c rest gs"
  by (induction pre) simp_all

lemma ext_notes: "toLowerCase (extname ''notes.txt'') \<noteq> ''.pdf''"
  by (simp add: toLowerCase_def extname_def)

lemma ext_a: "toLowerCase (extname ''a.pdf'') = ''.pdf''"
  by (simp add: toLowerCase_def extname_def)

lemma ext_b: "toLowerCase (extname ''b.pdf'') = ''.pdf''"
  by (simp add: toLowerCase_def extname_def)

lemma name_a: "parse_name ''a.pdf'' = ''a''"
  by (simp add: parse_name_def extname_def)

lemma name_b: "parse_name ''b.pdf'' = ''b''"
  by (simp add: parse_name_def extname_def)

lemma plain_flags:
  "debugPipeline (cfg statics_plain)" "\<not> applyWarp (cfg statics_plain)"
  "\<not> applyRotate (cfg statics_plain)" "\<not> applyStripesW (cfg statics_plain)"
  "\<not> applyAlpha (cfg statics_plain)" "\<not> applyGray (cfg statics_plain)"
  "\<not> applyBlur (cfg statics_plain)" "\<not> applyStripes (cfg statics_plain)"
  "\<not> applyRasterization (cfg statics_plain)" "\<not> applyDither (cfg statics_plain)"
  "\<not> applyNoiseW (cfg statics_plain)" "\<not> applyRasterEffectFlag (cfg statics_plain)"
  "\<not> applyFinalThreshold (cfg statics_plain)" "\<not> applyDropout (cfg statics_plain)"
  "\<not> applyTileshift (cfg statics_plain)"
  "srcDir statics_plain = ''output/pdf''" "dstDir statics_plain = ''output/tiff''"
  "renderResolution (cfg statics_plain) = 200"
  by (simp_all add: statics_plain_def statics0_def cfg0_def)

lemma plain_stages:
  "stage_warp e statics_plain g d name cur s = Inr (cur, s)"
  "stage_rotate e statics_plain g d name cur s = Inr (cur, s)"
  "stage_stripesW e statics_plain g d name cur s = Inr (cur, s)"
  "stage_alpha statics_plain g d name cur s = Inr s"
  "stage_gray statics_plain g d name cur s = Inr s"
  "stage_blur e statics_plain g d name cur s = Inr s"
  "stage_stripes e statics_plain g d name cur s = Inr (cur, s)"
  "stage_rasterization statics_plain g d name cur s = Inr s"
  "stage_dither statics_plain g d name cur s = Inr s"
  "stage_noiseW e statics_plain g d name cur s = Inr (cur, s)"
  "stage_rasterEffect e statics_plain g d name cur s = Inr (cur, s)"
  "stage_finalThreshold statics_plain g d name cur s = Inr s"
  "stage_dropout e statics_plain g d name cur s = Inr (cur, s)"
  "stage_tileshift e statics_plain g d name cur s = Inr (cur, s)"
  by (simp_all add: stage_warp_def stage_rotate_def stage_stripesW_def stage_alpha_def
      stage_gray_def stage_blur_def stage_stripes_def stage_rasterization_def stage_dither_def
      stage_noiseW_def stage_rasterEffect_def stage_finalThreshold_def stage_dropout_def
      stage_tileshift_def stage_inplace_def stage_on_def plain_flags)

lemma plain_run:
  "\<exists>g' s'. main env0 statics_plain [''notes.txt'', ''a.pdf'', ''b.pdf''] world_pdfs = Inr (g', s')
      \<and> length (debug_events s') = 7"
  by (simp add: main_def ext_notes ext_a ext_b name_a name_b processPdf_def doc_stages_def
      plain_stages plain_flags stage_render_def stage_compress_def dbgLog_def dbgSnap_def
      copyFileSync_def unlinkSync_def magick_def DEBUG_PIPELINE_def debugDir_def
      globals0_def env0_def world_pdfs_def path_join_def Let_def debug_events_def)

text \<open>
  C9. In a batch run, the first directory entry that is a PDF is processed with
  \<open>isFirstPdf\<close> true and \<open>currentDebug\<close> equal to the debug switch of the
  configuration; when it completes both flags are false; every later document is
  processed from that state and leaves it as it is, and adds no \<open>[DEBUG]\<close> line and
  no snapshot copy: the debug output of the run is the debug output of its first
  document.
\<close>

theorem debug_first_document_only:
  assumes "list_all (\<lambda>f. toLowerCase (extname f) \<noteq> ''.pdf'') pre"
      and "toLowerCase (extname file) = ''.pdf''"
      and "main e c (pre @ file # rest) s = Inr (g', s')"
  shows "\<exists>s1. doc_stages e c \<lparr>isFirstPdf = True, currentDebug = DEBUG_PIPELINE c\<rparr> file s = Inr s1
             \<and> processPdf e c file (globals0, s) = Inr (\<lparr>isFirstPdf = False, currentDebug = False\<rparr>, s1)
             \<and> main_loop e c rest (\<lparr>isFirstPdf = False, currentDebug = False\<rparr>, s1) = Inr (g', s')
             \<and> debug_events s' = debug_events s1
             \<and> g' = \<lparr>isFirstPdf = False, currentDebug = False\<rparr>"
proof -
  from assms have run: "and_then (processPdf e c file (globals0, s)) (\<lambda>gs1. main_loop e c rest gs1)
                          = Inr (g', s')"
    by (simp add: main_def main_loop_skip)
  then obtain g1 s1 where
    p: "processPdf e c file (globals0, s) = Inr (g1, s1)"
    and m: "main_loop e c rest (g1, s1) = Inr (g', s')"
    by (auto simp: and_then_eq_Inr)
  from p obtain t where
    d: "doc_stages e c \<lparr>isFirstPdf = True, currentDebug = DEBUG_PIPELINE c\<rparr> file s = Inr t"
    and g1: "g1 = \<lparr>isFirstPdf = False, currentDebug = False\<rparr>" and t: "s1 = t"
    by (auto simp: processPdf_first and_then_eq_Inr)
  have later: "debug_events s' = debug_events s1 \<and> g' = g1"
    using m by (intro main_loop_later) (simp_all add: g1)
  show ?thesis
    using p m d g1 t later by auto
qed

theorem debug_first_document_only_witness:
  "\<exists>g' s' s1.
      main env0 statics_plain ([''notes.txt''] @ ''a.pdf'' # [''b.pdf'']) world_pdfs = Inr (g', s')
    \<and> doc_stages env0 statics_plain \<lparr>isFirstPdf = True, currentDebug = DEBUG_PIPELINE statics_plain\<rparr>
          ''a.pdf'' world_pdfs = Inr s1
    \<and> processPdf env0 statics_plain ''a.pdf'' (globals0, world_pdfs)
          = Inr (\<lparr>isFirstPdf = False, currentDebug = False\<rparr>, s1)
    \<and> main_loop env0 statics_plain [''b.pdf''] (\<lparr>isFirstPdf = False, currentDebug = False\<rparr>, s1)
          = Inr (g', s')
    \<and> debug_events s' = debug_events s1
    \<and> length (debug_events s1) = 7
    \<and> g' = \<lparr>isFirstPdf = False, currentDebug = False\<rparr>"
proof -
  from plain_run obtain g' s' where
    run: "main env0 statics_plain ([''notes.txt''] @ ''a.pdf'' # [''b.pdf'']) world_pdfs = Inr (g', s')"
    and len: "length (debug_events s') = 7"
    by auto
  have pre: "list_all (\<lambda>f. toLowerCase (extname f) \<noteq> ''.pdf'') [''notes.txt'']"
    by (simp add: ext_notes)
  from debug_first_document_only [OF pre ext_a run] len run show ?thesis
    by auto
qed

end
